theory Spec2Isabelle
  imports Complex_Main "HOL-Library.Word"
begin

section \<open>The symbolic engine: scalar expression graphs and matrices\<close>

text \<open>
  \<^verbatim>\<open>spatial_types.py\<close> wraps the casadi type \<^verbatim>\<open>SX\<close>: a matrix whose entries are
  scalar expression graphs over named symbols. The engine is an external library; the
  part of it that the wrapper calls is modelled here. An entry is a constant, a symbol, or
  an operation node. Numbers are reals: floating-point rounding, infinities and NaN are
  outside the model.
\<close>

datatype sx_unary = OP_NEG | OP_NOT | OP_SQRT | OP_FABS | OP_ACOS

datatype sx_binary =
    OP_ADD | OP_SUB | OP_MUL | OP_DIV | OP_POW
  | OP_EQ | OP_NE | OP_LT | OP_LE
  | OP_FMIN | OP_FMAX | OP_AND | OP_OR | OP_IF_ELSE_ZERO

datatype SXElem =
    SXConst real
  | SXSym string
  | SXUnary sx_unary SXElem
  | SXBinary sx_binary SXElem SXElem

fun unary_val :: "sx_unary \<Rightarrow> real \<Rightarrow> real" where
  "unary_val OP_NEG x = - x"
| "unary_val OP_NOT x = (if x = 0 then 1 else 0)"
| "unary_val OP_SQRT x = sqrt x"
| "unary_val OP_FABS x = \<bar>x\<bar>"
| "unary_val OP_ACOS x = arccos x"

definition pow_val :: "real \<Rightarrow> real \<Rightarrow> real" where
  "pow_val x y =
     (if y = of_int \<lfloor>y\<rfloor>
      then (if 0 \<le> y then x ^ nat \<lfloor>y\<rfloor> else 1 / x ^ nat (- \<lfloor>y\<rfloor>))
      else x powr y)"

fun binary_val :: "sx_binary \<Rightarrow> real \<Rightarrow> real \<Rightarrow> real" where
  "binary_val OP_ADD x y = x + y"
| "binary_val OP_SUB x y = x - y"
| "binary_val OP_MUL x y = x * y"
| "binary_val OP_DIV x y = x / y"
| "binary_val OP_POW x y = pow_val x y"
| "binary_val OP_EQ x y = (if x = y then 1 else 0)"
| "binary_val OP_NE x y = (if x \<noteq> y then 1 else 0)"
| "binary_val OP_LT x y = (if x < y then 1 else 0)"
| "binary_val OP_LE x y = (if x \<le> y then 1 else 0)"
| "binary_val OP_FMIN x y = min x y"
| "binary_val OP_FMAX x y = max x y"
| "binary_val OP_AND x y = (if x \<noteq> 0 \<and> y \<noteq> 0 then 1 else 0)"
| "binary_val OP_OR x y = (if x \<noteq> 0 \<or> y \<noteq> 0 then 1 else 0)"
| "binary_val OP_IF_ELSE_ZERO c x = (if c \<noteq> 0 then x else 0)"

text \<open>Direct numeric substitution: the value of a graph once every symbol has a value.\<close>

fun evalf :: "(string \<Rightarrow> real) \<Rightarrow> SXElem \<Rightarrow> real" where
  "evalf env (SXConst c) = c"
| "evalf env (SXSym n) = env n"
| "evalf env (SXUnary f a) = unary_val f (evalf env a)"
| "evalf env (SXBinary f a b) = binary_val f (evalf env a) (evalf env b)"

fun symvar :: "SXElem \<Rightarrow> string list" where
  "symvar (SXConst c) = []"
| "symvar (SXSym n) = [n]"
| "symvar (SXUnary f a) = symvar a"
| "symvar (SXBinary f a b) = symvar a @ symvar b"

text \<open>
  A matrix is stored densely, column by column: entry \<open>(i, j)\<close> of a matrix with
  \<open>size1\<close> rows is \<open>nz ! (i + size1 * j)\<close>. A structural zero is the constant 0.
\<close>

record SX =
  size1 :: nat
  size2 :: nat
  nz :: "SXElem list"

definition SX_scalar :: "SXElem \<Rightarrow> SX" where
  "SX_scalar e = \<lparr>size1 = 1, size2 = 1, nz = [e]\<rparr>"

definition SX_num :: "real \<Rightarrow> SX" where
  "SX_num r = SX_scalar (SXConst r)"

definition SX_column :: "SXElem list \<Rightarrow> SX" where
  "SX_column es = \<lparr>size1 = length es, size2 = 1, nz = es\<rparr>"

definition SX_zeros :: "nat \<Rightarrow> nat \<Rightarrow> SX" where
  "SX_zeros n m = \<lparr>size1 = n, size2 = m, nz = replicate (n * m) (SXConst 0)\<rparr>"

definition SX_eye :: "nat \<Rightarrow> SX" where
  "SX_eye n = \<lparr>size1 = n, size2 = n,
     nz = map (\<lambda>k. SXConst (if k mod n = k div n then 1 else 0)) [0..<n * n]\<rparr>"

definition is_scalar :: "SX \<Rightarrow> bool" where
  "is_scalar x = (size1 x = 1 \<and> size2 x = 1 \<and> length (nz x) = 1)"

datatype error =
    TypeError string string string
  | ValueError
  | AssertionError
  | IndexError
  | KeyError string
  | CasadiError

text \<open>
  An elementwise binary operation of the engine. A \<open>1 \<times> 1\<close> operand is broadcast over the
  other; otherwise the shapes must agree, and the engine raises when they do not.
\<close>

definition ca_binary :: "sx_binary \<Rightarrow> SX \<Rightarrow> SX \<Rightarrow> error + SX" where
  "ca_binary f x y =
     (if is_scalar x then Inr (y\<lparr>nz := map (SXBinary f (nz x ! 0)) (nz y)\<rparr>)
      else if is_scalar y then Inr (x\<lparr>nz := map (\<lambda>a. SXBinary f a (nz y ! 0)) (nz x)\<rparr>)
      else if size1 x = size1 y \<and> size2 x = size2 y \<and> length (nz x) = length (nz y)
      then Inr (x\<lparr>nz := map (\<lambda>(a, b). SXBinary f a b) (zip (nz x) (nz y))\<rparr>)
      else Inl CasadiError)"

definition ca_unary :: "sx_unary \<Rightarrow> SX \<Rightarrow> SX" where
  "ca_unary f x = x\<lparr>nz := map (SXUnary f) (nz x)\<rparr>"

text \<open>\<^verbatim>\<open>ca.gt(a, b)\<close> and \<^verbatim>\<open>ca.ge(a, b)\<close> are the engine's \<open>b < a\<close> and \<open>b \<le> a\<close>.\<close>

definition ca_gt :: "SX \<Rightarrow> SX \<Rightarrow> error + SX" where
  "ca_gt x y = ca_binary OP_LT y x"

definition ca_ge :: "SX \<Rightarrow> SX \<Rightarrow> error + SX" where
  "ca_ge x y = ca_binary OP_LE y x"

text \<open>
  \<^verbatim>\<open>ca.if_else(c, a, b)\<close> is a data-flow select: the engine builds
  \<open>if_else_zero(c, a) + if_else_zero(!c, b)\<close>, so both branches are part of the graph.
\<close>

definition ca_if_else :: "SX \<Rightarrow> SX \<Rightarrow> SX \<Rightarrow> error + SX" where
  "ca_if_else c a b =
     (case ca_binary OP_IF_ELSE_ZERO c a of
        Inl e \<Rightarrow> Inl e
      | Inr t \<Rightarrow>
          (case ca_binary OP_IF_ELSE_ZERO (ca_unary OP_NOT c) b of
             Inl e \<Rightarrow> Inl e
           | Inr f \<Rightarrow> ca_binary OP_ADD t f))"

text \<open>Indexing by one linear index, and by row and column; the engine raises out of range.\<close>

definition SX_getitem :: "SX \<Rightarrow> nat \<Rightarrow> error + SX" where
  "SX_getitem x i = (if i < length (nz x) then Inr (SX_scalar (nz x ! i)) else Inl CasadiError)"

definition SX_elem :: "SX \<Rightarrow> nat \<Rightarrow> error + SXElem" where
  "SX_elem x i = (if i < length (nz x) then Inr (nz x ! i) else Inl CasadiError)"

definition SX_elem2 :: "SX \<Rightarrow> nat \<Rightarrow> nat \<Rightarrow> error + SXElem" where
  "SX_elem2 x i j =
     (if i < size1 x \<and> j < size2 x \<and> i + size1 x * j < length (nz x)
      then Inr (nz x ! (i + size1 x * j)) else Inl CasadiError)"

definition SX_getitem2 :: "SX \<Rightarrow> nat \<Rightarrow> nat \<Rightarrow> error + SX" where
  "SX_getitem2 x i j =
     (if i < size1 x \<and> j < size2 x \<and> i + size1 x * j < length (nz x)
      then Inr (SX_scalar (nz x ! (i + size1 x * j))) else Inl CasadiError)"

definition SX_setitem :: "SX \<Rightarrow> nat \<Rightarrow> SX \<Rightarrow> error + SX" where
  "SX_setitem x i v =
     (if i < length (nz x) \<and> is_scalar v then Inr (x\<lparr>nz := (nz x)[i := nz v ! 0]\<rparr>)
      else Inl CasadiError)"

definition SX_setitem2 :: "SX \<Rightarrow> nat \<Rightarrow> nat \<Rightarrow> SX \<Rightarrow> error + SX" where
  "SX_setitem2 x i j v =
     (if i < size1 x \<and> j < size2 x \<and> i + size1 x * j < length (nz x) \<and> is_scalar v
      then Inr (x\<lparr>nz := (nz x)[i + size1 x * j := nz v ! 0]\<rparr>)
      else Inl CasadiError)"

text \<open>The value of every entry of a matrix under an assignment of the symbols.\<close>

definition SX_evalf :: "(string \<Rightarrow> real) \<Rightarrow> SX \<Rightarrow> real list" where
  "SX_evalf env x = map (evalf env) (nz x)"


section \<open>Python values\<close>

text \<open>
  The wrapper dispatches on the run-time class of its operands, so the operands are
  modelled as tagged values. A frame (\<^verbatim>\<open>Body\<close>) is opaque. \<open>PyNum\<close> is an \<^verbatim>\<open>int\<close> or a
  \<^verbatim>\<open>float\<close>, \<open>PySeq\<close> a list or tuple, \<open>PySX\<close> a bare engine matrix; the other constructors
  are the classes of the module, each carrying its matrix \<^verbatim>\<open>s\<close> and its frame attributes.
  A \<open>PySymbol\<close> is the interned instance of its name. Values are compared by content:
  two Python objects sharing one engine matrix are not tracked.
\<close>

type_synonym Body = nat

datatype pyobj =
    PyNone
  | PyNum real
  | PySeq "pyobj list"
  | PySX SX
  | PySymbol string
  | PyExpression SX
  | PyPoint3 SX "Body option"
  | PyVector3 SX "Body option" "Body option"
  | PyQuaternion SX "Body option"
  | PyRotationMatrix SX "Body option" "Body option"
  | PyTransformationMatrix SX "Body option" "Body option"

fun class_name :: "pyobj \<Rightarrow> string" where
  "class_name PyNone = ''NoneType''"
| "class_name (PyNum r) = ''float''"
| "class_name (PySeq xs) = ''tuple''"
| "class_name (PySX s) = ''SX''"
| "class_name (PySymbol n) = ''Symbol''"
| "class_name (PyExpression s) = ''Expression''"
| "class_name (PyPoint3 s rf) = ''Point3''"
| "class_name (PyVector3 s rf vf) = ''Vector3''"
| "class_name (PyQuaternion s rf) = ''Quaternion''"
| "class_name (PyRotationMatrix s rf cf) = ''RotationMatrix''"
| "class_name (PyTransformationMatrix s rf cf) = ''TransformationMatrix''"

text \<open>The attribute \<^verbatim>\<open>s\<close>, which every subclass of \<^verbatim>\<open>Symbol_\<close> has and nothing else.\<close>

fun attr_s :: "pyobj \<Rightarrow> SX option" where
  "attr_s (PySymbol n) = Some (SX_scalar (SXSym n))"
| "attr_s (PyExpression s) = Some s"
| "attr_s (PyPoint3 s rf) = Some s"
| "attr_s (PyVector3 s rf vf) = Some s"
| "attr_s (PyQuaternion s rf) = Some s"
| "attr_s (PyRotationMatrix s rf cf) = Some s"
| "attr_s (PyTransformationMatrix s rf cf) = Some s"
| "attr_s other = None"

fun attr_reference_frame :: "pyobj \<Rightarrow> Body option" where
  "attr_reference_frame (PyPoint3 s rf) = rf"
| "attr_reference_frame (PyVector3 s rf vf) = rf"
| "attr_reference_frame (PyQuaternion s rf) = rf"
| "attr_reference_frame (PyRotationMatrix s rf cf) = rf"
| "attr_reference_frame (PyTransformationMatrix s rf cf) = rf"
| "attr_reference_frame other = None"

text \<open>\<^verbatim>\<open>result.reference_frame = frame\<close> on a freshly built result.\<close>

fun set_reference_frame :: "Body option \<Rightarrow> pyobj \<Rightarrow> pyobj" where
  "set_reference_frame f (PyPoint3 s rf) = PyPoint3 s f"
| "set_reference_frame f (PyVector3 s rf vf) = PyVector3 s f vf"
| "set_reference_frame f (PyQuaternion s rf) = PyQuaternion s f"
| "set_reference_frame f (PyRotationMatrix s rf cf) = PyRotationMatrix s f cf"
| "set_reference_frame f (PyTransformationMatrix s rf cf) = PyTransformationMatrix s f cf"
| "set_reference_frame f other = other"

text \<open>Python's \<^verbatim>\<open>a or b\<close> on frames: \<^verbatim>\<open>None\<close> is the only falsy frame.\<close>

fun py_or :: "Body option \<Rightarrow> Body option \<Rightarrow> Body option" where
  "py_or (Some a) b = Some a"
| "py_or None b = b"

text \<open>Sequencing of calls that may raise: the first exception ends the computation.\<close>

fun then_do :: "error + 'a \<Rightarrow> ('a \<Rightarrow> error + 'b) \<Rightarrow> error + 'b" where
  "then_do (Inl e) f = Inl e"
| "then_do (Inr x) f = f x"

text \<open>
  What the engine accepts where it expects a matrix: a matrix, a number, or a sequence of
  numbers (read as a column).
\<close>

fun num_of :: "pyobj \<Rightarrow> real option" where
  "num_of (PyNum r) = Some r"
| "num_of other = None"

fun to_casadi :: "pyobj \<Rightarrow> error + SX" where
  "to_casadi (PySX s) = Inr s"
| "to_casadi (PyNum r) = Inr (SX_num r)"
| "to_casadi (PySeq xs) =
     (if list_all (\<lambda>x. num_of x \<noteq> None) xs
      then Inr (SX_column (map (\<lambda>x. SXConst (the (num_of x))) xs))
      else Inl CasadiError)"
| "to_casadi other = Inl CasadiError"

text \<open>\<^verbatim>\<open>_to_sx(thing)\<close>: the attribute \<^verbatim>\<open>s\<close> when there is one, else the thing itself.\<close>

definition to_sx :: "pyobj \<Rightarrow> pyobj" where
  "to_sx thing = (case attr_s thing of Some s \<Rightarrow> PySX s | None \<Rightarrow> thing)"

text \<open>\<^verbatim>\<open>Symbol_.__getitem__\<close> and \<^verbatim>\<open>Symbol_.__setitem__\<close>, for integer keys and for pairs.\<close>

definition Symbol_getitem :: "SX \<Rightarrow> nat \<Rightarrow> error + pyobj" where
  "Symbol_getitem s item = then_do (SX_getitem s item) (\<lambda>r. Inr (PyExpression r))"

definition Symbol_getitem2 :: "SX \<Rightarrow> nat \<Rightarrow> nat \<Rightarrow> error + pyobj" where
  "Symbol_getitem2 s i j = then_do (SX_getitem2 s i j) (\<lambda>r. Inr (PyExpression r))"

definition Symbol_setitem :: "SX \<Rightarrow> nat \<Rightarrow> pyobj \<Rightarrow> error + SX" where
  "Symbol_setitem s key val = then_do (to_casadi (to_sx val)) (SX_setitem s key)"

definition Symbol_setitem2 :: "SX \<Rightarrow> nat \<Rightarrow> nat \<Rightarrow> pyobj \<Rightarrow> error + SX" where
  "Symbol_setitem2 s i j val = then_do (to_casadi (to_sx val)) (SX_setitem2 s i j)"

text \<open>Python's \<^verbatim>\<open>data[i]\<close> for an integer \<open>i\<close>, by the class of \<^verbatim>\<open>data\<close>.\<close>

definition py_getitem :: "pyobj \<Rightarrow> nat \<Rightarrow> error + pyobj" where
  "py_getitem data i =
     (case data of
        PyNone \<Rightarrow> Inl (TypeError ''NoneType'' ''[]'' ''int'')
      | PyNum r \<Rightarrow> Inl (TypeError ''float'' ''[]'' ''int'')
      | PySeq xs \<Rightarrow> (if i < length xs then Inr (xs ! i) else Inl IndexError)
      | PySX s \<Rightarrow> then_do (SX_getitem s i) (\<lambda>r. Inr (PySX r))
      | _ \<Rightarrow> Symbol_getitem (the (attr_s data)) i)"

subsection \<open>Expression\<close>

fun set_column :: "SX \<Rightarrow> nat \<Rightarrow> pyobj list \<Rightarrow> error + SX" where
  "set_column s i [] = Inr s"
| "set_column s i (d # ds) =
     then_do (case d of PySymbol n \<Rightarrow> Symbol_setitem s i (PySX (SX_scalar (SXSym n)))
              | _ \<Rightarrow> Symbol_setitem s i d)
       (\<lambda>s'. set_column s' (Suc i) ds)"

fun set_row :: "SX \<Rightarrow> nat \<Rightarrow> pyobj \<Rightarrow> nat list \<Rightarrow> error + SX" where
  "set_row s i row [] = Inr s"
| "set_row s i row (j # js) =
     then_do (py_getitem row j) (\<lambda>v.
     then_do (Symbol_setitem2 s i j v) (\<lambda>s'. set_row s' i row js))"

fun set_rows :: "SX \<Rightarrow> nat \<Rightarrow> nat \<Rightarrow> pyobj list \<Rightarrow> error + SX" where
  "set_rows s y i [] = Inr s"
| "set_rows s y i (r # rs) =
     then_do (set_row s i r [0..<y]) (\<lambda>s'. set_rows s' y (Suc i) rs)"

text \<open>
  \<^verbatim>\<open>Expression.__init__\<close>, returning the matrix \<^verbatim>\<open>s\<close> of the new instance. A sequence is
  copied entry by entry into a fresh \<open>x \<times> y\<close> matrix, \<open>y\<close> being the length of the first
  element when that is itself a sequence and 1 otherwise.
\<close>

definition Expression_init :: "pyobj \<Rightarrow> error + SX" where
  "Expression_init data =
     (case data of
        PyNone \<Rightarrow> Inr (SX_zeros 0 0)
      | PySX s \<Rightarrow> Inr s
      | PyNum r \<Rightarrow> Inr (SX_num r)
      | PySeq xs \<Rightarrow>
          (if length xs = 0 then Inr (SX_zeros 0 0)
           else let y = (case xs ! 0 of PySeq row \<Rightarrow> length row | _ \<Rightarrow> 1)
                in if 1 < y then set_rows (SX_zeros (length xs) y) y 0 xs
                   else set_column (SX_zeros (length xs) y) 0 xs)
      | _ \<Rightarrow> Inr (the (attr_s data)))"

subsection \<open>Point3, Vector3 and Quaternion\<close>

text \<open>
  \<^verbatim>\<open>Point3.__init__\<close>: the matrix always starts as \<open>(0, 0, 0, 1)\<close> and only its first three
  entries are overwritten, from \<^verbatim>\<open>data.x\<close>, \<^verbatim>\<open>data.y\<close>, \<^verbatim>\<open>data.z\<close> of a point or vector and
  from \<^verbatim>\<open>data[0]\<close>, \<^verbatim>\<open>data[1]\<close>, \<^verbatim>\<open>data[2]\<close> of anything else.
\<close>

definition Point3_init :: "pyobj \<Rightarrow> Body option \<Rightarrow> error + SX \<times> Body option" where
  "Point3_init data reference_frame =
     (let s0 = SX_column [SXConst 0, SXConst 0, SXConst 0, SXConst 1];
          from_xyz_attrs = (\<lambda>d rf.
            then_do (SX_getitem d 0) (\<lambda>x. then_do (SX_setitem s0 0 x) (\<lambda>s1.
            then_do (SX_getitem d 1) (\<lambda>y. then_do (SX_setitem s1 1 y) (\<lambda>s2.
            then_do (SX_getitem d 2) (\<lambda>z. then_do (SX_setitem s2 2 z) (\<lambda>s3.
            Inr (s3, py_or reference_frame rf))))))))
      in case data of
        PyNone \<Rightarrow> Inr (s0, reference_frame)
      | PyPoint3 d rf \<Rightarrow> from_xyz_attrs d rf
      | PyVector3 d rf vf \<Rightarrow> from_xyz_attrs d rf
      | _ \<Rightarrow>
          then_do (py_getitem data 0) (\<lambda>d0. then_do (Symbol_setitem s0 0 d0) (\<lambda>s1.
          then_do (py_getitem data 1) (\<lambda>d1. then_do (Symbol_setitem s1 1 d1) (\<lambda>s2.
          then_do (py_getitem data 2) (\<lambda>d2. then_do (Symbol_setitem s2 2 d2) (\<lambda>s3.
          Inr (s3, reference_frame))))))))"

definition Point3 :: "pyobj \<Rightarrow> Body option \<Rightarrow> error + pyobj" where
  "Point3 data reference_frame =
     then_do (Point3_init data reference_frame) (\<lambda>(s, rf). Inr (PyPoint3 s rf))"

text \<open>
  \<^verbatim>\<open>Vector3.__init__\<close> builds a point from the same arguments, takes its matrix and frame,
  and then sets entry 3 to 0.
\<close>

definition Vector3 :: "pyobj \<Rightarrow> Body option \<Rightarrow> error + pyobj" where
  "Vector3 data reference_frame =
     then_do (Point3_init data reference_frame) (\<lambda>(s, rf).
     then_do (Symbol_setitem s 3 (PyNum 0)) (\<lambda>s'. Inr (PyVector3 s' rf rf)))"

definition Point3_from_xyz :: "pyobj \<Rightarrow> pyobj \<Rightarrow> pyobj \<Rightarrow> Body option \<Rightarrow> error + pyobj" where
  "Point3_from_xyz x y z reference_frame =
     (let x = (if x = PyNone then PyNum 0 else x);
          y = (if y = PyNone then PyNum 0 else y);
          z = (if z = PyNone then PyNum 0 else z)
      in Point3 (PySeq [x, y, z]) reference_frame)"

definition Vector3_from_xyz :: "pyobj \<Rightarrow> pyobj \<Rightarrow> pyobj \<Rightarrow> Body option \<Rightarrow> error + pyobj" where
  "Vector3_from_xyz x y z reference_frame =
     (let x = (if x = PyNone then PyNum 0 else x);
          y = (if y = PyNone then PyNum 0 else y);
          z = (if z = PyNone then PyNum 0 else z)
      in Vector3 (PySeq [x, y, z]) reference_frame)"

text \<open>
  \<^verbatim>\<open>Quaternion.__init__\<close>: a fresh \<open>4 \<times> 1\<close> matrix; the four items of \<^verbatim>\<open>data\<close> are read first
  and then stored.
\<close>

definition Quaternion :: "pyobj \<Rightarrow> Body option \<Rightarrow> error + pyobj" where
  "Quaternion data reference_frame =
     (let data = (if data = PyNone then PySeq [PyNum 0, PyNum 0, PyNum 0, PyNum 1] else data)
      in then_do (py_getitem data 0) (\<lambda>d0. then_do (py_getitem data 1) (\<lambda>d1.
         then_do (py_getitem data 2) (\<lambda>d2. then_do (py_getitem data 3) (\<lambda>d3.
         then_do (Symbol_setitem (SX_zeros 4 1) 0 d0) (\<lambda>s1.
         then_do (Symbol_setitem s1 1 d1) (\<lambda>s2.
         then_do (Symbol_setitem s2 2 d2) (\<lambda>s3.
         then_do (Symbol_setitem s3 3 d3) (\<lambda>s4.
         Inr (PyQuaternion s4 reference_frame))))))))))"

subsection \<open>RotationMatrix and TransformationMatrix\<close>

text \<open>A run of assignments \<^verbatim>\<open>self[i, j] = v\<close>, in order.\<close>

fun set_entries :: "SX \<Rightarrow> (nat \<times> nat \<times> real) list \<Rightarrow> error + SX" where
  "set_entries s [] = Inr s"
| "set_entries s ((i, j, v) # rest) =
     then_do (Symbol_setitem2 s i j (PyNum v)) (\<lambda>s'. set_entries s' rest)"

definition RotationMatrix_sanity_check :: "SX \<Rightarrow> error + SX" where
  "RotationMatrix_sanity_check s =
     (if size1 s \<noteq> 4 \<or> size2 s \<noteq> 4 then Inl ValueError
      else set_entries s
        [(0, 3, 0), (1, 3, 0), (2, 3, 0), (3, 0, 0), (3, 1, 0), (3, 2, 0), (3, 3, 1)])"

definition TransformationMatrix_sanity_check :: "SX \<Rightarrow> error + SX" where
  "TransformationMatrix_sanity_check s =
     (if size1 s \<noteq> 4 \<or> size2 s \<noteq> 4 then Inl ValueError
      else set_entries s [(3, 0, 0), (3, 1, 0), (3, 2, 0), (3, 3, 1)])"

text \<open>
  The arithmetic of \<open>1 \<times> 1\<close> expressions, written on their single entries: for such
  operands every overloaded operator of \<^verbatim>\<open>Expression\<close> wraps the engine's node.
\<close>

definition sx_add :: "SXElem \<Rightarrow> SXElem \<Rightarrow> SXElem" where
  "sx_add a b = SXBinary OP_ADD a b"

definition sx_sub :: "SXElem \<Rightarrow> SXElem \<Rightarrow> SXElem" where
  "sx_sub a b = SXBinary OP_SUB a b"

definition sx_mul :: "SXElem \<Rightarrow> SXElem \<Rightarrow> SXElem" where
  "sx_mul a b = SXBinary OP_MUL a b"

definition sx_div :: "SXElem \<Rightarrow> SXElem \<Rightarrow> SXElem" where
  "sx_div a b = SXBinary OP_DIV a b"

definition sx_sqrt :: "SXElem \<Rightarrow> SXElem" where
  "sx_sqrt a = SXUnary OP_SQRT a"

text \<open>
  \<^verbatim>\<open>RotationMatrix.__quaternion_to_rotation_matrix\<close>: the sixteen entries, row by row, as
  the nested list handed to the constructor, which copies them into a \<open>4 \<times> 4\<close> matrix and
  runs its sanity check. \<^verbatim>\<open>from_quaternion\<close> is this function.
\<close>

definition quaternion_to_rotation_matrix_rows ::
  "SXElem \<Rightarrow> SXElem \<Rightarrow> SXElem \<Rightarrow> SXElem \<Rightarrow> pyobj" where
  "quaternion_to_rotation_matrix_rows x y z w =
     (let x2 = sx_mul x x; y2 = sx_mul y y; z2 = sx_mul z z; w2 = sx_mul w w;
          two = (\<lambda>a b. sx_mul (sx_mul (SXConst 2) a) b);
          E = (\<lambda>e. PyExpression (SX_scalar e))
      in PySeq
        [PySeq [E (sx_sub (sx_sub (sx_add w2 x2) y2) z2), E (sx_sub (two x y) (two w z)),
                E (sx_add (two x z) (two w y)), PyNum 0],
         PySeq [E (sx_add (two x y) (two w z)), E (sx_sub (sx_add (sx_sub w2 x2) y2) z2),
                E (sx_sub (two y z) (two w x)), PyNum 0],
         PySeq [E (sx_sub (two x z) (two w y)), E (sx_add (two y z) (two w x)),
                E (sx_add (sx_sub (sx_sub w2 x2) y2) z2), PyNum 0],
         PySeq [PyNum 0, PyNum 0, PyNum 0, PyNum 1]])"

definition quaternion_to_rotation_matrix :: "SX \<Rightarrow> Body option \<Rightarrow> error + pyobj" where
  "quaternion_to_rotation_matrix q q_frame =
     then_do (SX_elem q 0) (\<lambda>x. then_do (SX_elem q 1) (\<lambda>y.
     then_do (SX_elem q 2) (\<lambda>z. then_do (SX_elem q 3) (\<lambda>w.
     then_do (Expression_init (quaternion_to_rotation_matrix_rows x y z w)) (\<lambda>s.
     then_do (RotationMatrix_sanity_check s) (\<lambda>s'.
     Inr (PyRotationMatrix s' q_frame None)))))))"

definition RotationMatrix_from_quaternion :: "SX \<Rightarrow> Body option \<Rightarrow> error + pyobj" where
  "RotationMatrix_from_quaternion q q_frame = quaternion_to_rotation_matrix q q_frame"

definition RotationMatrix ::
  "pyobj \<Rightarrow> Body option \<Rightarrow> Body option \<Rightarrow> bool \<Rightarrow> error + pyobj" where
  "RotationMatrix data reference_frame child_frame sanity_check =
     (let finish = (\<lambda>s rf cf.
            if sanity_check
            then then_do (RotationMatrix_sanity_check s) (\<lambda>s'. Inr (PyRotationMatrix s' rf cf))
            else Inr (PyRotationMatrix s rf cf))
      in case data of
        PySX s \<Rightarrow> finish s reference_frame child_frame
      | PyQuaternion q q_frame \<Rightarrow>
          then_do (quaternion_to_rotation_matrix q q_frame) (\<lambda>r.
            finish (the (attr_s r)) (py_or reference_frame q_frame) child_frame)
      | PyRotationMatrix s rf cf \<Rightarrow> finish s rf child_frame
      | PyTransformationMatrix s rf cf \<Rightarrow> finish s rf child_frame
      | PyNone \<Rightarrow> Inr (PyRotationMatrix (SX_eye 4) reference_frame child_frame)
      | _ \<Rightarrow> then_do (Expression_init data) (\<lambda>s. finish s reference_frame child_frame))"

definition TransformationMatrix ::
  "pyobj \<Rightarrow> Body option \<Rightarrow> Body option \<Rightarrow> bool \<Rightarrow> error + pyobj" where
  "TransformationMatrix data reference_frame child_frame sanity_check =
     (let finish = (\<lambda>s rf cf.
            if sanity_check
            then then_do (TransformationMatrix_sanity_check s)
                   (\<lambda>s'. Inr (PyTransformationMatrix s' rf cf))
            else Inr (PyTransformationMatrix s rf cf))
      in case data of
        PyNone \<Rightarrow> Inr (PyTransformationMatrix (SX_eye 4) reference_frame child_frame)
      | PySX s \<Rightarrow> finish s reference_frame child_frame
      | PyExpression s \<Rightarrow> finish s reference_frame child_frame
      | PyRotationMatrix s rf cf \<Rightarrow> finish s (py_or reference_frame rf) child_frame
      | PyTransformationMatrix s rf cf \<Rightarrow> finish s reference_frame (py_or child_frame cf)
      | _ \<Rightarrow> then_do (Expression_init data) (\<lambda>s. finish s reference_frame child_frame))"

section \<open>Type-dispatch arithmetic\<close>

text \<open>
  Each class overloads \<^verbatim>\<open>+ - * / **\<close> by a method with a chain of \<^verbatim>\<open>isinstance\<close> tests. The
  methods \<^verbatim>\<open>__add__\<close>, \<^verbatim>\<open>__sub__\<close>, \<^verbatim>\<open>__mul__\<close>, \<^verbatim>\<open>__truediv__\<close>, \<^verbatim>\<open>__pow__\<close> of \<^verbatim>\<open>Symbol\<close> are
  the same code up to the operator, and so are those of \<^verbatim>\<open>Expression\<close>; they are modelled by
  one function taking the engine's operation and the operator's name (for the error). A
  result of class \<^verbatim>\<open>Point3\<close> or \<^verbatim>\<open>Vector3\<close> is always built by calling that class's constructor
  on the engine's result.
\<close>

datatype operator = Plus | Minus | Times | Over | Power

fun op_node :: "operator \<Rightarrow> sx_binary" where
  "op_node Plus = OP_ADD"
| "op_node Minus = OP_SUB"
| "op_node Times = OP_MUL"
| "op_node Over = OP_DIV"
| "op_node Power = OP_POW"

fun op_name :: "operator \<Rightarrow> string" where
  "op_name Plus = ''+''"
| "op_name Minus = ''-''"
| "op_name Times = ''*''"
| "op_name Over = ''/''"
| "op_name Power = ''**''"

definition operation_type_error :: "pyobj \<Rightarrow> string \<Rightarrow> pyobj \<Rightarrow> error" where
  "operation_type_error arg1 operation arg2 =
     TypeError (class_name arg1) operation (class_name arg2)"

definition as_Expression :: "error + SX \<Rightarrow> error + pyobj" where
  "as_Expression r = then_do r (\<lambda>s. Inr (PyExpression s))"

definition as_Point3 :: "error + SX \<Rightarrow> error + pyobj" where
  "as_Point3 r = then_do r (\<lambda>s. Point3 (PySX s) None)"

definition as_Vector3 :: "error + SX \<Rightarrow> error + pyobj" where
  "as_Vector3 r = then_do r (\<lambda>s. Vector3 (PySX s) None)"

subsection \<open>Symbol\<close>

definition Symbol_binary :: "operator \<Rightarrow> pyobj \<Rightarrow> pyobj \<Rightarrow> error + pyobj" where
  "Symbol_binary f self other =
     (let s = the (attr_s self) in
      case other of
        PyNum r \<Rightarrow> as_Expression (ca_binary (op_node f) s (SX_num r))
      | PySymbol n \<Rightarrow> as_Expression (ca_binary (op_node f) s (SX_scalar (SXSym n)))
      | PyExpression other_s \<Rightarrow> as_Expression (ca_binary (op_node f) s other_s)
      | PyVector3 other_s rf vf \<Rightarrow> as_Vector3 (ca_binary (op_node f) s other_s)
      | PyPoint3 other_s rf \<Rightarrow> as_Point3 (ca_binary (op_node f) s other_s)
      | PyQuaternion other_s rf \<Rightarrow>
          then_do (ca_binary (op_node f) s other_s)
            (\<lambda>r. Inl (operation_type_error self (op_name f) other))
      | PyRotationMatrix other_s rf cf \<Rightarrow>
          then_do (ca_binary (op_node f) s other_s)
            (\<lambda>r. Inl (operation_type_error self (op_name f) other))
      | PyTransformationMatrix other_s rf cf \<Rightarrow>
          then_do (ca_binary (op_node f) s other_s)
            (\<lambda>r. Inl (operation_type_error self (op_name f) other))
      | _ \<Rightarrow> Inl (operation_type_error self (op_name f) other))"

definition Symbol_rbinary :: "operator \<Rightarrow> pyobj \<Rightarrow> pyobj \<Rightarrow> error + pyobj" where
  "Symbol_rbinary f self other =
     (case other of
        PyNum r \<Rightarrow> as_Expression (ca_binary (op_node f) (SX_num r) (the (attr_s self)))
      | _ \<Rightarrow> Inl (operation_type_error other (op_name f) self))"

definition Symbol_add :: "pyobj \<Rightarrow> pyobj \<Rightarrow> error + pyobj" where
  "Symbol_add self other = Symbol_binary Plus self other"

definition Symbol_radd :: "pyobj \<Rightarrow> pyobj \<Rightarrow> error + pyobj" where
  "Symbol_radd self other = Symbol_rbinary Plus self other"

definition Symbol_sub :: "pyobj \<Rightarrow> pyobj \<Rightarrow> error + pyobj" where
  "Symbol_sub self other = Symbol_binary Minus self other"

definition Symbol_rsub :: "pyobj \<Rightarrow> pyobj \<Rightarrow> error + pyobj" where
  "Symbol_rsub self other = Symbol_rbinary Minus self other"

definition Symbol_mul :: "pyobj \<Rightarrow> pyobj \<Rightarrow> error + pyobj" where
  "Symbol_mul self other = Symbol_binary Times self other"

definition Symbol_rmul :: "pyobj \<Rightarrow> pyobj \<Rightarrow> error + pyobj" where
  "Symbol_rmul self other = Symbol_rbinary Times self other"

definition Symbol_truediv :: "pyobj \<Rightarrow> pyobj \<Rightarrow> error + pyobj" where
  "Symbol_truediv self other = Symbol_binary Over self other"

definition Symbol_rtruediv :: "pyobj \<Rightarrow> pyobj \<Rightarrow> error + pyobj" where
  "Symbol_rtruediv self other = Symbol_rbinary Over self other"

definition Symbol_pow :: "pyobj \<Rightarrow> pyobj \<Rightarrow> error + pyobj" where
  "Symbol_pow self other = Symbol_binary Power self other"

definition Symbol_rpow :: "pyobj \<Rightarrow> pyobj \<Rightarrow> error + pyobj" where
  "Symbol_rpow self other = Symbol_rbinary Power self other"

definition Symbol_neg :: "pyobj \<Rightarrow> error + pyobj" where
  "Symbol_neg self = Inr (PyExpression (ca_unary OP_NEG (the (attr_s self))))"

subsection \<open>Expression\<close>

definition Expression_binary :: "operator \<Rightarrow> pyobj \<Rightarrow> pyobj \<Rightarrow> error + pyobj" where
  "Expression_binary f self other =
     (let s = the (attr_s self) in
      case other of
        PyNum r \<Rightarrow> as_Expression (ca_binary (op_node f) s (SX_num r))
      | PyPoint3 other_s rf \<Rightarrow> as_Point3 (ca_binary (op_node f) s other_s)
      | PyVector3 other_s rf vf \<Rightarrow> as_Vector3 (ca_binary (op_node f) s other_s)
      | PyExpression other_s \<Rightarrow> as_Expression (ca_binary (op_node f) s other_s)
      | PySymbol n \<Rightarrow> as_Expression (ca_binary (op_node f) s (SX_scalar (SXSym n)))
      | _ \<Rightarrow> Inl (operation_type_error self (op_name f) other))"

definition Expression_rbinary :: "operator \<Rightarrow> pyobj \<Rightarrow> pyobj \<Rightarrow> error + pyobj" where
  "Expression_rbinary f self other =
     (case other of
        PyNum r \<Rightarrow> as_Expression (ca_binary (op_node f) (SX_num r) (the (attr_s self)))
      | _ \<Rightarrow> Inl (operation_type_error other (op_name f) self))"

definition Expression_add :: "pyobj \<Rightarrow> pyobj \<Rightarrow> error + pyobj" where
  "Expression_add self other = Expression_binary Plus self other"

definition Expression_radd :: "pyobj \<Rightarrow> pyobj \<Rightarrow> error + pyobj" where
  "Expression_radd self other = Expression_rbinary Plus self other"

definition Expression_sub :: "pyobj \<Rightarrow> pyobj \<Rightarrow> error + pyobj" where
  "Expression_sub self other = Expression_binary Minus self other"

definition Expression_rsub :: "pyobj \<Rightarrow> pyobj \<Rightarrow> error + pyobj" where
  "Expression_rsub self other = Expression_rbinary Minus self other"

definition Expression_mul :: "pyobj \<Rightarrow> pyobj \<Rightarrow> error + pyobj" where
  "Expression_mul self other = Expression_binary Times self other"

definition Expression_rmul :: "pyobj \<Rightarrow> pyobj \<Rightarrow> error + pyobj" where
  "Expression_rmul self other = Expression_rbinary Times self other"

definition Expression_truediv :: "pyobj \<Rightarrow> pyobj \<Rightarrow> error + pyobj" where
  "Expression_truediv self other = Expression_binary Over self other"

definition Expression_rtruediv :: "pyobj \<Rightarrow> pyobj \<Rightarrow> error + pyobj" where
  "Expression_rtruediv self other = Expression_rbinary Over self other"

definition Expression_pow :: "pyobj \<Rightarrow> pyobj \<Rightarrow> error + pyobj" where
  "Expression_pow self other = Expression_binary Power self other"

definition Expression_rpow :: "pyobj \<Rightarrow> pyobj \<Rightarrow> error + pyobj" where
  "Expression_rpow self other = Expression_rbinary Power self other"

definition Expression_neg :: "pyobj \<Rightarrow> error + pyobj" where
  "Expression_neg self = Inr (PyExpression (ca_unary OP_NEG (the (attr_s self))))"

subsection \<open>Point3\<close>

text \<open>
  Every method of \<^verbatim>\<open>Point3\<close> and \<^verbatim>\<open>Vector3\<close> ends with
  \<^verbatim>\<open>result.reference_frame = self.reference_frame\<close>.
\<close>

definition with_frame_of :: "pyobj \<Rightarrow> error + pyobj \<Rightarrow> error + pyobj" where
  "with_frame_of self result =
     then_do result (\<lambda>r. Inr (set_reference_frame (attr_reference_frame self) r))"

definition Point3_add :: "pyobj \<Rightarrow> pyobj \<Rightarrow> error + pyobj" where
  "Point3_add self other =
     (let s = the (attr_s self) in
      case other of
        PyNum r \<Rightarrow> with_frame_of self (as_Point3 (ca_binary OP_ADD s (SX_num r)))
      | PyVector3 other_s rf vf \<Rightarrow> with_frame_of self (as_Point3 (ca_binary OP_ADD s other_s))
      | PyExpression other_s \<Rightarrow> with_frame_of self (as_Point3 (ca_binary OP_ADD s other_s))
      | PySymbol n \<Rightarrow> with_frame_of self (as_Point3 (ca_binary OP_ADD s (SX_scalar (SXSym n))))
      | _ \<Rightarrow> Inl (operation_type_error self ''+'' other))"

definition Point3_radd :: "pyobj \<Rightarrow> pyobj \<Rightarrow> error + pyobj" where
  "Point3_radd self other =
     (case other of
        PyNum r \<Rightarrow> with_frame_of self (as_Point3 (ca_binary OP_ADD (the (attr_s self)) (SX_num r)))
      | _ \<Rightarrow> Inl (operation_type_error other ''+'' self))"

definition Point3_sub :: "pyobj \<Rightarrow> pyobj \<Rightarrow> error + pyobj" where
  "Point3_sub self other =
     (let s = the (attr_s self) in
      case other of
        PyNum r \<Rightarrow> with_frame_of self (as_Point3 (ca_binary OP_SUB s (SX_num r)))
      | PyPoint3 other_s rf \<Rightarrow> with_frame_of self (as_Vector3 (ca_binary OP_SUB s other_s))
      | PySymbol n \<Rightarrow> with_frame_of self (as_Point3 (ca_binary OP_SUB s (SX_scalar (SXSym n))))
      | PyExpression other_s \<Rightarrow> with_frame_of self (as_Point3 (ca_binary OP_SUB s other_s))
      | PyVector3 other_s rf vf \<Rightarrow> with_frame_of self (as_Point3 (ca_binary OP_SUB s other_s))
      | _ \<Rightarrow> Inl (operation_type_error self ''-'' other))"

definition Point3_rsub :: "pyobj \<Rightarrow> pyobj \<Rightarrow> error + pyobj" where
  "Point3_rsub self other =
     (case other of
        PyNum r \<Rightarrow> with_frame_of self (as_Point3 (ca_binary OP_SUB (SX_num r) (the (attr_s self))))
      | _ \<Rightarrow> Inl (operation_type_error other ''-'' self))"

text \<open>
  \<^verbatim>\<open>Point3.__mul__\<close>, \<^verbatim>\<open>__truediv__\<close> and \<^verbatim>\<open>__pow__\<close> accept a number, a \<^verbatim>\<open>Symbol\<close> or an
  \<^verbatim>\<open>Expression\<close> and nothing else.
\<close>

definition Point3_scalar_op :: "operator \<Rightarrow> pyobj \<Rightarrow> pyobj \<Rightarrow> error + pyobj" where
  "Point3_scalar_op f self other =
     (let s = the (attr_s self) in
      case other of
        PyNum r \<Rightarrow> with_frame_of self (as_Point3 (ca_binary (op_node f) s (SX_num r)))
      | PySymbol n \<Rightarrow>
          with_frame_of self (as_Point3 (ca_binary (op_node f) s (SX_scalar (SXSym n))))
      | PyExpression other_s \<Rightarrow> with_frame_of self (as_Point3 (ca_binary (op_node f) s other_s))
      | _ \<Rightarrow> Inl (operation_type_error self (op_name f) other))"

definition Point3_mul :: "pyobj \<Rightarrow> pyobj \<Rightarrow> error + pyobj" where
  "Point3_mul self other = Point3_scalar_op Times self other"

definition Point3_rmul :: "pyobj \<Rightarrow> pyobj \<Rightarrow> error + pyobj" where
  "Point3_rmul self other =
     (case other of
        PyNum r \<Rightarrow> with_frame_of self (as_Point3 (ca_binary OP_MUL (the (attr_s self)) (SX_num r)))
      | _ \<Rightarrow> Inl (operation_type_error other ''*'' self))"

definition Point3_truediv :: "pyobj \<Rightarrow> pyobj \<Rightarrow> error + pyobj" where
  "Point3_truediv self other = Point3_scalar_op Over self other"

definition Point3_rtruediv :: "pyobj \<Rightarrow> pyobj \<Rightarrow> error + pyobj" where
  "Point3_rtruediv self other =
     (case other of
        PyNum r \<Rightarrow> with_frame_of self (as_Point3 (ca_binary OP_DIV (SX_num r) (the (attr_s self))))
      | _ \<Rightarrow> Inl (operation_type_error other ''/'' self))"

definition Point3_neg :: "pyobj \<Rightarrow> error + pyobj" where
  "Point3_neg self = with_frame_of self (as_Point3 (Inr (ca_unary OP_NEG (the (attr_s self)))))"

definition Point3_pow :: "pyobj \<Rightarrow> pyobj \<Rightarrow> error + pyobj" where
  "Point3_pow self other = Point3_scalar_op Power self other"

definition Point3_rpow :: "pyobj \<Rightarrow> pyobj \<Rightarrow> error + pyobj" where
  "Point3_rpow self other =
     (case other of
        PyNum r \<Rightarrow> with_frame_of self (as_Point3 (ca_binary OP_POW (SX_num r) (the (attr_s self))))
      | _ \<Rightarrow> Inl (operation_type_error other ''**'' self))"

subsection \<open>Vector3\<close>

definition Vector3_add :: "pyobj \<Rightarrow> pyobj \<Rightarrow> error + pyobj" where
  "Vector3_add self other =
     (let s = the (attr_s self) in
      case other of
        PyNum r \<Rightarrow> with_frame_of self (as_Vector3 (ca_binary OP_ADD s (SX_num r)))
      | PyPoint3 other_s rf \<Rightarrow> with_frame_of self (as_Point3 (ca_binary OP_ADD s other_s))
      | PyVector3 other_s rf vf \<Rightarrow> with_frame_of self (as_Vector3 (ca_binary OP_ADD s other_s))
      | PyExpression other_s \<Rightarrow> with_frame_of self (as_Vector3 (ca_binary OP_ADD s other_s))
      | PySymbol n \<Rightarrow> with_frame_of self (as_Vector3 (ca_binary OP_ADD s (SX_scalar (SXSym n))))
      | _ \<Rightarrow> Inl (operation_type_error self ''+'' other))"

definition Vector3_radd :: "pyobj \<Rightarrow> pyobj \<Rightarrow> error + pyobj" where
  "Vector3_radd self other =
     (case other of
        PyNum r \<Rightarrow> with_frame_of self (as_Vector3 (ca_binary OP_ADD (the (attr_s self)) (SX_num r)))
      | _ \<Rightarrow> Inl (operation_type_error other ''+'' self))"

definition Vector3_sub :: "pyobj \<Rightarrow> pyobj \<Rightarrow> error + pyobj" where
  "Vector3_sub self other =
     (let s = the (attr_s self) in
      case other of
        PyNum r \<Rightarrow> with_frame_of self (as_Vector3 (ca_binary OP_SUB s (SX_num r)))
      | PyPoint3 other_s rf \<Rightarrow> with_frame_of self (as_Point3 (ca_binary OP_SUB s other_s))
      | PySymbol n \<Rightarrow> with_frame_of self (as_Vector3 (ca_binary OP_SUB s (SX_scalar (SXSym n))))
      | PyExpression other_s \<Rightarrow> with_frame_of self (as_Vector3 (ca_binary OP_SUB s other_s))
      | PyVector3 other_s rf vf \<Rightarrow> with_frame_of self (as_Vector3 (ca_binary OP_SUB s other_s))
      | _ \<Rightarrow> Inl (operation_type_error self ''-'' other))"

definition Vector3_rsub :: "pyobj \<Rightarrow> pyobj \<Rightarrow> error + pyobj" where
  "Vector3_rsub self other =
     (case other of
        PyNum r \<Rightarrow> with_frame_of self (as_Vector3 (ca_binary OP_SUB (SX_num r) (the (attr_s self))))
      | _ \<Rightarrow> Inl (operation_type_error other ''-'' self))"

definition Vector3_scalar_op :: "operator \<Rightarrow> pyobj \<Rightarrow> pyobj \<Rightarrow> error + pyobj" where
  "Vector3_scalar_op f self other =
     (let s = the (attr_s self) in
      case other of
        PyNum r \<Rightarrow> with_frame_of self (as_Vector3 (ca_binary (op_node f) s (SX_num r)))
      | PySymbol n \<Rightarrow>
          with_frame_of self (as_Vector3 (ca_binary (op_node f) s (SX_scalar (SXSym n))))
      | PyExpression other_s \<Rightarrow> with_frame_of self (as_Vector3 (ca_binary (op_node f) s other_s))
      | _ \<Rightarrow> Inl (operation_type_error self (op_name f) other))"

definition Vector3_mul :: "pyobj \<Rightarrow> pyobj \<Rightarrow> error + pyobj" where
  "Vector3_mul self other = Vector3_scalar_op Times self other"

definition Vector3_rmul :: "pyobj \<Rightarrow> pyobj \<Rightarrow> error + pyobj" where
  "Vector3_rmul self other =
     (case other of
        PyNum r \<Rightarrow> with_frame_of self (as_Vector3 (ca_binary OP_MUL (the (attr_s self)) (SX_num r)))
      | _ \<Rightarrow> Inl (operation_type_error other ''*'' self))"

definition Vector3_pow :: "pyobj \<Rightarrow> pyobj \<Rightarrow> error + pyobj" where
  "Vector3_pow self other = Vector3_scalar_op Power self other"

definition Vector3_rpow :: "pyobj \<Rightarrow> pyobj \<Rightarrow> error + pyobj" where
  "Vector3_rpow self other =
     (case other of
        PyNum r \<Rightarrow> with_frame_of self (as_Vector3 (ca_binary OP_POW (SX_num r) (the (attr_s self))))
      | _ \<Rightarrow> Inl (operation_type_error other ''**'' self))"

definition Vector3_truediv :: "pyobj \<Rightarrow> pyobj \<Rightarrow> error + pyobj" where
  "Vector3_truediv self other = Vector3_scalar_op Over self other"

definition Vector3_rtruediv :: "pyobj \<Rightarrow> pyobj \<Rightarrow> error + pyobj" where
  "Vector3_rtruediv self other =
     (case other of
        PyNum r \<Rightarrow> with_frame_of self (as_Vector3 (ca_binary OP_DIV (SX_num r) (the (attr_s self))))
      | _ \<Rightarrow> Inl (operation_type_error other ''/'' self))"

definition Vector3_neg :: "pyobj \<Rightarrow> error + pyobj" where
  "Vector3_neg self = with_frame_of self (as_Vector3 (Inr (ca_unary OP_NEG (the (attr_s self)))))"

subsection \<open>Python's operator protocol\<close>

text \<open>
  \<^verbatim>\<open>a + b\<close> calls the left operand's method; when the left operand's class has none for
  this right operand (a built-in number or container, or a class of the module without
  arithmetic), the right operand's reflected method is called. \<open>None\<close> stands for what the
  module does not decide: arithmetic between two built-in values, and Python's own
  \<^verbatim>\<open>TypeError\<close> when neither class has a method. A method of the module never returns
  \<^verbatim>\<open>NotImplemented\<close>: it returns a value or raises.
\<close>

definition forward_method :: "operator \<Rightarrow> pyobj \<Rightarrow> pyobj \<Rightarrow> (error + pyobj) option" where
  "forward_method f a b =
     (case a of
        PySymbol n \<Rightarrow> Some (case f of
            Plus \<Rightarrow> Symbol_add a b | Minus \<Rightarrow> Symbol_sub a b | Times \<Rightarrow> Symbol_mul a b
          | Over \<Rightarrow> Symbol_truediv a b | Power \<Rightarrow> Symbol_pow a b)
      | PyExpression s \<Rightarrow> Some (case f of
            Plus \<Rightarrow> Expression_add a b | Minus \<Rightarrow> Expression_sub a b
          | Times \<Rightarrow> Expression_mul a b | Over \<Rightarrow> Expression_truediv a b
          | Power \<Rightarrow> Expression_pow a b)
      | PyPoint3 s rf \<Rightarrow> Some (case f of
            Plus \<Rightarrow> Point3_add a b | Minus \<Rightarrow> Point3_sub a b | Times \<Rightarrow> Point3_mul a b
          | Over \<Rightarrow> Point3_truediv a b | Power \<Rightarrow> Point3_pow a b)
      | PyVector3 s rf vf \<Rightarrow> Some (case f of
            Plus \<Rightarrow> Vector3_add a b | Minus \<Rightarrow> Vector3_sub a b | Times \<Rightarrow> Vector3_mul a b
          | Over \<Rightarrow> Vector3_truediv a b | Power \<Rightarrow> Vector3_pow a b)
      | _ \<Rightarrow> None)"

definition reflected_method :: "operator \<Rightarrow> pyobj \<Rightarrow> pyobj \<Rightarrow> (error + pyobj) option" where
  "reflected_method f b a =
     (case b of
        PySymbol n \<Rightarrow> Some (case f of
            Plus \<Rightarrow> Symbol_radd b a | Minus \<Rightarrow> Symbol_rsub b a | Times \<Rightarrow> Symbol_rmul b a
          | Over \<Rightarrow> Symbol_rtruediv b a | Power \<Rightarrow> Symbol_rpow b a)
      | PyExpression s \<Rightarrow> Some (case f of
            Plus \<Rightarrow> Expression_radd b a | Minus \<Rightarrow> Expression_rsub b a
          | Times \<Rightarrow> Expression_rmul b a | Over \<Rightarrow> Expression_rtruediv b a
          | Power \<Rightarrow> Expression_rpow b a)
      | PyPoint3 s rf \<Rightarrow> Some (case f of
            Plus \<Rightarrow> Point3_radd b a | Minus \<Rightarrow> Point3_rsub b a | Times \<Rightarrow> Point3_rmul b a
          | Over \<Rightarrow> Point3_rtruediv b a | Power \<Rightarrow> Point3_rpow b a)
      | PyVector3 s rf vf \<Rightarrow> Some (case f of
            Plus \<Rightarrow> Vector3_radd b a | Minus \<Rightarrow> Vector3_rsub b a | Times \<Rightarrow> Vector3_rmul b a
          | Over \<Rightarrow> Vector3_rtruediv b a | Power \<Rightarrow> Vector3_rpow b a)
      | _ \<Rightarrow> None)"

definition py_binop :: "operator \<Rightarrow> pyobj \<Rightarrow> pyobj \<Rightarrow> (error + pyobj) option" where
  "py_binop f a b =
     (case forward_method f a b of
        Some r \<Rightarrow> Some r
      | None \<Rightarrow> reflected_method f b a)"

definition py_neg :: "pyobj \<Rightarrow> (error + pyobj) option" where
  "py_neg a =
     (case a of
        PySymbol n \<Rightarrow> Some (Symbol_neg a)
      | PyExpression s \<Rightarrow> Some (Expression_neg a)
      | PyPoint3 s rf \<Rightarrow> Some (Point3_neg a)
      | PyVector3 s rf vf \<Rightarrow> Some (Vector3_neg a)
      | _ \<Rightarrow> None)"

section \<open>Conditional helpers\<close>

text \<open>
  \<^verbatim>\<open>if_else(condition, if_result, else_result)\<close>. Numbers are wrapped into expressions first.
  The class test is made on \<^verbatim>\<open>if_result\<close> alone: when it is one of the five frame-carrying
  classes, \<^verbatim>\<open>else_result\<close> must have the same class. The result is built by calling the class
  of \<^verbatim>\<open>if_result\<close> (\<^verbatim>\<open>Expression\<close> for a symbol) on the engine's select.
\<close>

fun is_frame_type :: "pyobj \<Rightarrow> bool" where
  "is_frame_type (PyPoint3 s rf) = True"
| "is_frame_type (PyVector3 s rf vf) = True"
| "is_frame_type (PyTransformationMatrix s rf cf) = True"
| "is_frame_type (PyRotationMatrix s rf cf) = True"
| "is_frame_type (PyQuaternion s rf) = True"
| "is_frame_type other = False"

definition return_type_call :: "pyobj \<Rightarrow> SX \<Rightarrow> error + pyobj" where
  "return_type_call if_result r =
     (case if_result of
        PyNum x \<Rightarrow> Inr (PyExpression r)
      | PySymbol n \<Rightarrow> Inr (PyExpression r)
      | PyExpression s \<Rightarrow> Inr (PyExpression r)
      | PyPoint3 s rf \<Rightarrow> Point3 (PySX r) None
      | PyVector3 s rf vf \<Rightarrow> Vector3 (PySX r) None
      | PyQuaternion s rf \<Rightarrow> Quaternion (PySX r) None
      | PyRotationMatrix s rf cf \<Rightarrow> RotationMatrix (PySX r) None None True
      | PyTransformationMatrix s rf cf \<Rightarrow> TransformationMatrix (PySX r) None None True
      | PySX s \<Rightarrow> Inr (PySX r)
      | PySeq xs \<Rightarrow> Inl CasadiError
      | PyNone \<Rightarrow> Inl (TypeError ''NoneType'' ''()'' ''SX''))"

definition wrap_number :: "pyobj \<Rightarrow> pyobj" where
  "wrap_number x = (case x of PyNum r \<Rightarrow> PyExpression (SX_num r) | _ \<Rightarrow> x)"

definition if_else :: "pyobj \<Rightarrow> pyobj \<Rightarrow> pyobj \<Rightarrow> error + pyobj" where
  "if_else condition if_result else_result =
     then_do (Expression_init condition) (\<lambda>c.
       let if_result = wrap_number if_result;
           else_result = wrap_number else_result
       in if is_frame_type if_result \<and> class_name if_result \<noteq> class_name else_result
          then Inl AssertionError
          else then_do (Expression_init if_result) (\<lambda>a.
               then_do (Expression_init else_result) (\<lambda>b.
               then_do (ca_if_else c a b) (return_type_call if_result))))"

definition if_greater_zero :: "pyobj \<Rightarrow> pyobj \<Rightarrow> pyobj \<Rightarrow> error + pyobj" where
  "if_greater_zero condition if_result else_result =
     then_do (Expression_init condition) (\<lambda>c.
     then_do (ca_gt c (SX_num 0)) (\<lambda>g. if_else (PySX g) if_result else_result))"

definition if_eq_zero :: "pyobj \<Rightarrow> pyobj \<Rightarrow> pyobj \<Rightarrow> error + pyobj" where
  "if_eq_zero condition if_result else_result = if_else condition else_result if_result"

definition if_eq :: "pyobj \<Rightarrow> pyobj \<Rightarrow> pyobj \<Rightarrow> pyobj \<Rightarrow> error + pyobj" where
  "if_eq a b if_result else_result =
     then_do (Expression_init a) (\<lambda>a'.
     then_do (Expression_init b) (\<lambda>b'.
     then_do (ca_binary OP_EQ a' b') (\<lambda>c. if_else (PySX c) if_result else_result)))"

text \<open>
  \<^verbatim>\<open>if_eq_cases\<close>: the loop runs over the cases from the first to the last, each time
  wrapping the result so far as the else-branch of a new select.
\<close>

fun if_eq_cases_loop :: "SX \<Rightarrow> SX \<Rightarrow> (pyobj \<times> pyobj) list \<Rightarrow> error + SX" where
  "if_eq_cases_loop a result [] = Inr result"
| "if_eq_cases_loop a result ((b, b_result) # cases) =
     then_do (to_casadi (to_sx b)) (\<lambda>b'.
     then_do (to_casadi (to_sx b_result)) (\<lambda>r'.
     then_do (ca_binary OP_EQ a b') (\<lambda>c.
     then_do (ca_if_else c r' result) (\<lambda>result'.
     if_eq_cases_loop a result' cases))))"

definition if_eq_cases :: "pyobj \<Rightarrow> (pyobj \<times> pyobj) list \<Rightarrow> pyobj \<Rightarrow> error + pyobj" where
  "if_eq_cases a b_result_cases else_result =
     then_do (to_casadi (to_sx a)) (\<lambda>a'.
     then_do (to_casadi (to_sx else_result)) (\<lambda>result.
     as_Expression (if_eq_cases_loop a' result b_result_cases)))"

text \<open>
  \<^verbatim>\<open>if_less_eq_cases\<close> has the same body with \<open>\<le>\<close> for \<open>=\<close>, but its loop runs over
  \<^verbatim>\<open>reversed(range(len(b_result_cases)))\<close>: from the last case to the first.
\<close>

fun if_less_eq_cases_loop :: "SX \<Rightarrow> SX \<Rightarrow> (pyobj \<times> pyobj) list \<Rightarrow> error + SX" where
  "if_less_eq_cases_loop a result [] = Inr result"
| "if_less_eq_cases_loop a result ((b, b_result) # cases) =
     then_do (to_casadi (to_sx b)) (\<lambda>b'.
     then_do (to_casadi (to_sx b_result)) (\<lambda>r'.
     then_do (ca_binary OP_LE a b') (\<lambda>c.
     then_do (ca_if_else c r' result) (\<lambda>result'.
     if_less_eq_cases_loop a result' cases))))"

definition if_less_eq_cases :: "pyobj \<Rightarrow> (pyobj \<times> pyobj) list \<Rightarrow> pyobj \<Rightarrow> error + pyobj" where
  "if_less_eq_cases a b_result_cases else_result =
     then_do (to_casadi (to_sx a)) (\<lambda>a'.
     then_do (to_casadi (to_sx else_result)) (\<lambda>result.
     as_Expression (if_less_eq_cases_loop a' result (rev b_result_cases))))"

text \<open>
  The value of a scalar result: a number is its own value, a \<open>1 \<times> 1\<close> matrix has the value
  of its entry.
\<close>

definition py_value :: "(string \<Rightarrow> real) \<Rightarrow> pyobj \<Rightarrow> real option" where
  "py_value env v =
     (case v of
        PyNum r \<Rightarrow> Some r
      | PySX s \<Rightarrow> (if is_scalar s then Some (evalf env (nz s ! 0)) else None)
      | _ \<Rightarrow> (case attr_s v of
                Some s \<Rightarrow> (if is_scalar s then Some (evalf env (nz s ! 0)) else None)
              | None \<Rightarrow> None))"

definition result_value :: "(string \<Rightarrow> real) \<Rightarrow> error + pyobj \<Rightarrow> real option" where
  "result_value env r = (case r of Inl e \<Rightarrow> None | Inr v \<Rightarrow> py_value env v)"

section \<open>Three-valued logic\<close>

definition TrinaryFalse :: real where
  "TrinaryFalse = 0"

definition TrinaryUnknown :: real where
  "TrinaryUnknown = 1 / 2"

definition TrinaryTrue :: real where
  "TrinaryTrue = 1"

text \<open>
  \<^verbatim>\<open>is_true_symbol(expr)\<close> is \<^verbatim>\<open>(expr == BinaryTrue).to_np()\<close> inside a \<^verbatim>\<open>try\<close> that turns every
  exception into \<^verbatim>\<open>False\<close>, and its result is used as a truth value. The comparison is the
  engine's for a number, a bare matrix and every class but \<^verbatim>\<open>Symbol\<close>, whose \<^verbatim>\<open>__eq__\<close>
  compares hashes and so yields a \<^verbatim>\<open>bool\<close> without \<^verbatim>\<open>to_np\<close>. \<^verbatim>\<open>to_np\<close> evaluates the
  comparison, which raises when a symbol is free. A result with more than one entry has no
  truth value: the caller's test raises \<^verbatim>\<open>ValueError\<close>.
\<close>

definition is_constant_symbol :: "real \<Rightarrow> pyobj \<Rightarrow> error + bool" where
  "is_constant_symbol c expr =
     (case expr of
        PySymbol n \<Rightarrow> Inr False
      | PyNone \<Rightarrow> Inr False
      | _ \<Rightarrow>
        (case to_casadi (to_sx expr) of
           Inl e \<Rightarrow> Inr False
         | Inr s \<Rightarrow>
             if list_ex (\<lambda>e. symvar e \<noteq> []) (nz s) then Inr False
             else if length (nz s) = 0 then Inr False
             else if length (nz s) = 1 then Inr (evalf (\<lambda>n. 0) (nz s ! 0) = c)
             else Inl ValueError))"

definition is_true_symbol :: "pyobj \<Rightarrow> error + bool" where
  "is_true_symbol expr = is_constant_symbol 1 expr"

definition is_false_symbol :: "pyobj \<Rightarrow> error + bool" where
  "is_false_symbol expr = is_constant_symbol 0 expr"

text \<open>The module's own \<^verbatim>\<open>min\<close> and \<^verbatim>\<open>max\<close>, which shadow the built-in ones.\<close>

definition min_expr :: "pyobj \<Rightarrow> pyobj \<Rightarrow> error + pyobj" where
  "min_expr x y =
     then_do (Expression_init x) (\<lambda>x'.
     then_do (Expression_init y) (\<lambda>y'. as_Expression (ca_binary OP_FMIN x' y')))"

definition max_expr :: "pyobj \<Rightarrow> pyobj \<Rightarrow> error + pyobj" where
  "max_expr x y =
     then_do (Expression_init x) (\<lambda>x'.
     then_do (Expression_init y) (\<lambda>y'. as_Expression (ca_binary OP_FMAX x' y')))"

definition limit :: "pyobj \<Rightarrow> pyobj \<Rightarrow> pyobj \<Rightarrow> error + pyobj" where
  "limit x lower_limit upper_limit =
     then_do (min_expr upper_limit x) (\<lambda>m. max_expr lower_limit m)"

text \<open>
  \<^verbatim>\<open>logic_and3(*args)\<close> at a call with two arguments, the calls of the three-valued algebra;
  with more the source recurses on the tail and calls itself on two arguments.
\<close>

definition logic_and3 :: "pyobj \<Rightarrow> pyobj \<Rightarrow> error + pyobj" where
  "logic_and3 a b =
     then_do (is_false_symbol a) (\<lambda>fa.
     then_do (is_false_symbol b) (\<lambda>fb.
       if fa \<or> fb then Inr (PyNum TrinaryFalse)
       else then_do (is_true_symbol a) (\<lambda>ta.
            then_do (is_true_symbol b) (\<lambda>tb.
              let args = (if ta then [] else [a]) @ (if tb then [] else [b])
              in if length args = 0 then Inr (PyNum TrinaryTrue)
                 else if length args = 1 then Inr (args ! 0)
                 else min_expr (to_sx (args ! 0)) (to_sx (args ! 1))))))"

definition logic_or3 :: "pyobj \<Rightarrow> pyobj \<Rightarrow> error + pyobj" where
  "logic_or3 a b = max_expr (to_sx a) (to_sx b)"

text \<open>
  \<^verbatim>\<open>logic_not3(expr)\<close> is \<^verbatim>\<open>Expression(1 - expr)\<close>: Python subtracts two numbers itself and
  otherwise calls the reflected method of \<^verbatim>\<open>expr\<close>.
\<close>

definition logic_not3 :: "pyobj \<Rightarrow> error + pyobj" where
  "logic_not3 expr =
     then_do (case expr of
                PyNum r \<Rightarrow> Inr (PyNum (1 - r))
              | _ \<Rightarrow> (case reflected_method Minus expr (PyNum 1) of
                         Some r \<Rightarrow> r
                       | None \<Rightarrow> Inl (operation_type_error (PyNum 1) ''-'' expr)))
       (\<lambda>d. as_Expression (Expression_init d))"

section \<open>Rotation matrices and quaternions\<close>

text \<open>
  The slice \<^verbatim>\<open>self[:r1, c0:]\<close> of a matrix: rows \<open>0 \<dots> r1 - 1\<close> and columns from \<open>c0\<close> on, both
  clipped to the shape as Python slices are.
\<close>

definition SX_slice :: "SX \<Rightarrow> nat \<Rightarrow> nat \<Rightarrow> SX" where
  "SX_slice x r1 c0 =
     (let rows = [0..<min r1 (size1 x)]; cols = [min c0 (size2 x)..<size2 x]
      in \<lparr>size1 = length rows, size2 = length cols,
           nz = concat (map (\<lambda>j. map (\<lambda>i. nz x ! (i + size1 x * j)) rows) cols)\<rparr>)"

text \<open>
  \<^verbatim>\<open>RotationMatrix.x_vector\<close>, \<^verbatim>\<open>y_vector\<close> and \<^verbatim>\<open>z_vector\<close>: the three bodies are the same
  line, \<^verbatim>\<open>Vector3(self[:4, 3:], reference_frame=self.reference_frame)\<close>.
\<close>

definition RotationMatrix_x_vector :: "pyobj \<Rightarrow> error + pyobj" where
  "RotationMatrix_x_vector self =
     Vector3 (PyExpression (SX_slice (the (attr_s self)) 4 3)) (attr_reference_frame self)"

definition RotationMatrix_y_vector :: "pyobj \<Rightarrow> error + pyobj" where
  "RotationMatrix_y_vector self =
     Vector3 (PyExpression (SX_slice (the (attr_s self)) 4 3)) (attr_reference_frame self)"

definition RotationMatrix_z_vector :: "pyobj \<Rightarrow> error + pyobj" where
  "RotationMatrix_z_vector self =
     Vector3 (PyExpression (SX_slice (the (attr_s self)) 4 3)) (attr_reference_frame self)"

subsection \<open>Quaternion: norm, normalize, to_axis_angle\<close>

text \<open>
  \<^verbatim>\<open>ca.norm_2\<close> of a row or column: the square root of the sum of the squares. The engine
  has no such norm for a symbolic matrix with several rows and columns.
\<close>

definition ca_norm_2 :: "SX \<Rightarrow> error + SX" where
  "ca_norm_2 x =
     (if size1 x = 1 \<or> size2 x = 1
      then Inr (SX_scalar (sx_sqrt (foldl (\<lambda>acc e. sx_add acc (sx_mul e e)) (SXConst 0) (nz x))))
      else Inl CasadiError)"

definition norm_expr :: "pyobj \<Rightarrow> error + pyobj" where
  "norm_expr v =
     (case v of
        PyPoint3 s rf \<Rightarrow> as_Expression (ca_norm_2 (SX_slice s 3 0))
      | PyVector3 s rf vf \<Rightarrow> as_Expression (ca_norm_2 (SX_slice s 3 0))
      | _ \<Rightarrow> then_do (Expression_init v) (\<lambda>s. as_Expression (ca_norm_2 s)))"

definition set_s :: "pyobj \<Rightarrow> SX \<Rightarrow> pyobj" where
  "set_s self s' =
     (case self of
        PyExpression s \<Rightarrow> PyExpression s'
      | PyPoint3 s rf \<Rightarrow> PyPoint3 s' rf
      | PyVector3 s rf vf \<Rightarrow> PyVector3 s' rf vf
      | PyQuaternion s rf \<Rightarrow> PyQuaternion s' rf
      | PyRotationMatrix s rf cf \<Rightarrow> PyRotationMatrix s' rf cf
      | PyTransformationMatrix s rf cf \<Rightarrow> PyTransformationMatrix s' rf cf
      | _ \<Rightarrow> self)"

text \<open>
  \<^verbatim>\<open>self.x /= norm_\<close> reads the entry through the property, divides the resulting expression
  by \<^verbatim>\<open>norm_\<close> and stores the quotient back through the setter: the receiver's matrix
  changes. \<open>divide_entry\<close> is that statement for entry \<open>i\<close>; the functions below return the
  receiver as it is after the call.
\<close>

definition divide_entry :: "SX \<Rightarrow> nat \<Rightarrow> pyobj \<Rightarrow> error + SX" where
  "divide_entry s i nrm =
     then_do (Symbol_getitem s i) (\<lambda>v.
     then_do (Expression_truediv v nrm) (\<lambda>q. Symbol_setitem s i q))"

definition Quaternion_normalize :: "pyobj \<Rightarrow> error + pyobj" where
  "Quaternion_normalize self =
     then_do (norm_expr self) (\<lambda>nrm.
     then_do (divide_entry (the (attr_s self)) 0 nrm) (\<lambda>s1.
     then_do (divide_entry s1 1 nrm) (\<lambda>s2.
     then_do (divide_entry s2 2 nrm) (\<lambda>s3.
     then_do (divide_entry s3 3 nrm) (\<lambda>s4.
     Inr (set_s self s4))))))"

definition sqrt_expr :: "pyobj \<Rightarrow> error + pyobj" where
  "sqrt_expr x = then_do (Expression_init x) (\<lambda>s. Inr (PyExpression (ca_unary OP_SQRT s)))"

definition acos_expr :: "pyobj \<Rightarrow> error + pyobj" where
  "acos_expr x = then_do (Expression_init x) (\<lambda>s. Inr (PyExpression (ca_unary OP_ACOS s)))"

text \<open>
  \<^verbatim>\<open>Quaternion.to_axis_angle\<close> returns the axis and the angle; the model returns them
  together with the receiver after the call, which \<^verbatim>\<open>self.normalize()\<close> has changed.
\<close>

definition Quaternion_to_axis_angle :: "pyobj \<Rightarrow> error + (pyobj \<times> pyobj) \<times> pyobj" where
  "Quaternion_to_axis_angle self0 =
     then_do (Quaternion_normalize self0) (\<lambda>self.
     let s = the (attr_s self) in
     then_do (Symbol_getitem s 3) (\<lambda>w.
     then_do (Expression_pow w (PyNum 2)) (\<lambda>w_sq.
     then_do (Expression_rsub w_sq (PyNum 1)) (\<lambda>d.
     then_do (sqrt_expr d) (\<lambda>w2.
     then_do (if_eq_zero w2 (PyNum 1) w2) (\<lambda>m.
     then_do (Symbol_getitem s 3) (\<lambda>w'.
     then_do (limit w' (PyNum (- 1)) (PyNum 1)) (\<lambda>l.
     then_do (acos_expr l) (\<lambda>ac.
     then_do (Expression_rmul ac (PyNum 2)) (\<lambda>a2.
     then_do (if_eq_zero w2 (PyNum 0) a2) (\<lambda>angle.
     then_do (Symbol_getitem s 0) (\<lambda>sx.
     then_do (Expression_truediv sx m) (\<lambda>xm.
     then_do (if_eq_zero w2 (PyNum 0) xm) (\<lambda>x.
     then_do (Symbol_getitem s 1) (\<lambda>sy.
     then_do (Expression_truediv sy m) (\<lambda>ym.
     then_do (if_eq_zero w2 (PyNum 0) ym) (\<lambda>y.
     then_do (Symbol_getitem s 2) (\<lambda>sz.
     then_do (Expression_truediv sz m) (\<lambda>zm.
     then_do (if_eq_zero w2 (PyNum 1) zm) (\<lambda>z.
     then_do (Vector3 (PySeq [x, y, z]) (attr_reference_frame self)) (\<lambda>axis.
     Inr ((axis, angle), self))))))))))))))))))))))"

subsection \<open>Quaternion.from_rotation_matrix\<close>

text \<open>
  \<^verbatim>\<open>if_greater_zero\<close> on \<open>1 \<times> 1\<close> expressions, as the node it builds: the select on
  \<open>0 < condition\<close>.
\<close>

definition sx_if_greater_zero :: "SXElem \<Rightarrow> SXElem \<Rightarrow> SXElem \<Rightarrow> SXElem" where
  "sx_if_greater_zero c a b =
     (let g = SXBinary OP_LT (SXConst 0) c
      in SXBinary OP_ADD (SXBinary OP_IF_ELSE_ZERO g a)
           (SXBinary OP_IF_ELSE_ZERO (SXUnary OP_NOT g) b))"

text \<open>\<^verbatim>\<open>trace(matrix)\<close>: the loop \<^verbatim>\<open>s += matrix[i, i]\<close> over the rows, starting from 0.\<close>

fun trace_loop :: "SX \<Rightarrow> SXElem \<Rightarrow> nat list \<Rightarrow> error + SXElem" where
  "trace_loop m s [] = Inr s"
| "trace_loop m s (i # is) =
     then_do (SX_elem2 m i i) (\<lambda>e. trace_loop m (sx_add s e) is)"

definition trace :: "SX \<Rightarrow> error + SXElem" where
  "trace m = trace_loop m (SXConst 0) [0..<size1 m]"

text \<open>
  The body of \<^verbatim>\<open>Quaternion.from_rotation_matrix\<close> on the entries \<open>r i j\<close> of the matrix and
  its trace \<open>t0\<close>: the four entries of \<^verbatim>\<open>q\<close> before the final scaling, and the scale factor.
  The names are the source's; a name assigned twice there has a prime here for its second
  value.
\<close>

definition from_rotation_matrix_entries ::
  "(nat \<Rightarrow> nat \<Rightarrow> SXElem) \<Rightarrow> SXElem \<Rightarrow> SXElem list \<times> SXElem" where
  "from_rotation_matrix_entries r t0 =
     (let if0 = sx_sub t0 (r 3 3);
          if1 = sx_sub (r 1 1) (r 0 0);
          m_i_i = sx_if_greater_zero if1 (r 1 1) (r 0 0);
          m_i_j = sx_if_greater_zero if1 (r 1 2) (r 0 1);
          m_i_k = sx_if_greater_zero if1 (r 1 0) (r 0 2);
          m_j_i = sx_if_greater_zero if1 (r 2 1) (r 1 0);
          m_j_j = sx_if_greater_zero if1 (r 2 2) (r 1 1);
          m_j_k = sx_if_greater_zero if1 (r 2 0) (r 1 2);
          m_k_i = sx_if_greater_zero if1 (r 0 1) (r 2 0);
          m_k_j = sx_if_greater_zero if1 (r 0 2) (r 2 1);
          m_k_k = sx_if_greater_zero if1 (r 0 0) (r 2 2);
          if2 = sx_sub (r 2 2) m_i_i;
          m_i_i' = sx_if_greater_zero if2 (r 2 2) m_i_i;
          m_i_j' = sx_if_greater_zero if2 (r 2 0) m_i_j;
          m_i_k' = sx_if_greater_zero if2 (r 2 1) m_i_k;
          m_j_i' = sx_if_greater_zero if2 (r 0 2) m_j_i;
          m_j_j' = sx_if_greater_zero if2 (r 0 0) m_j_j;
          m_j_k' = sx_if_greater_zero if2 (r 0 1) m_j_k;
          m_k_i' = sx_if_greater_zero if2 (r 1 2) m_k_i;
          m_k_j' = sx_if_greater_zero if2 (r 1 0) m_k_j;
          m_k_k' = sx_if_greater_zero if2 (r 1 1) m_k_k;
          t = sx_if_greater_zero if0 t0 (sx_add (sx_sub m_i_i' (sx_add m_j_j' m_k_k')) (r 3 3));
          q0 = sx_if_greater_zero if0 (sx_sub (r 2 1) (r 1 2))
                 (sx_if_greater_zero if2 (sx_add m_i_j' m_j_i')
                    (sx_if_greater_zero if1 (sx_add m_k_i' m_i_k') t));
          q1 = sx_if_greater_zero if0 (sx_sub (r 0 2) (r 2 0))
                 (sx_if_greater_zero if2 (sx_add m_k_i' m_i_k')
                    (sx_if_greater_zero if1 t (sx_add m_i_j' m_j_i')));
          q2 = sx_if_greater_zero if0 (sx_sub (r 1 0) (r 0 1))
                 (sx_if_greater_zero if2 t
                    (sx_if_greater_zero if1 (sx_add m_i_j' m_j_i') (sx_add m_k_i' m_i_k')));
          q3 = sx_if_greater_zero if0 t (sx_sub m_k_j' m_j_k')
      in ([q0, q1, q2, q3], sx_div (SXConst (1 / 2)) (sx_sqrt (sx_mul t (r 3 3)))))"

text \<open>
  \<^verbatim>\<open>Quaternion.from_rotation_matrix(r)\<close>: \<^verbatim>\<open>q\<close> starts as the expression \<open>(0, 0, 0, 0)\<close>, gets
  its four entries, is multiplied by the scale factor and handed to the constructor with
  the frame of \<^verbatim>\<open>r\<close>. Every \<^verbatim>\<open>r[i, j]\<close> read has \<open>i, j < 4\<close>.
\<close>

definition Quaternion_from_rotation_matrix :: "pyobj \<Rightarrow> error + pyobj" where
  "Quaternion_from_rotation_matrix r =
     (let m = the (attr_s r) in
      then_do (Expression_init (PySeq [PyNum 0, PyNum 0, PyNum 0, PyNum 0])) (\<lambda>q.
      then_do (trace m) (\<lambda>t0.
      then_do (SX_elem2 m 3 3) (\<lambda>r33.
        let (qs, k) = from_rotation_matrix_entries (\<lambda>i j. nz m ! (i + size1 m * j)) t0 in
        then_do (Symbol_setitem q 0 (PyExpression (SX_scalar (qs ! 0)))) (\<lambda>q.
        then_do (Symbol_setitem q 1 (PyExpression (SX_scalar (qs ! 1)))) (\<lambda>q.
        then_do (Symbol_setitem q 2 (PyExpression (SX_scalar (qs ! 2)))) (\<lambda>q.
        then_do (Symbol_setitem q 3 (PyExpression (SX_scalar (qs ! 3)))) (\<lambda>q.
        then_do (Expression_mul (PyExpression q) (PyExpression (SX_scalar k))) (\<lambda>q'.
        Quaternion q' (attr_reference_frame r))))))))))"

definition RotationMatrix_to_quaternion :: "pyobj \<Rightarrow> error + pyobj" where
  "RotationMatrix_to_quaternion self = Quaternion_from_rotation_matrix self"

section \<open>The symbol registry\<close>

text \<open>
  \<^verbatim>\<open>Symbol.__new__\<close> keeps the class attribute \<^verbatim>\<open>_registry\<close>, a dictionary from names to
  instances. An instance is a Python object: \<open>oid\<close> is its identity (what \<^verbatim>\<open>is\<close> compares),
  allocated fresh when \<^verbatim>\<open>super().__new__(cls)\<close> runs. The state is the registry and the
  next free identity.
\<close>

record Symbol_instance =
  oid :: nat
  name :: string
  s :: SXElem

record interpreter =
  registry :: "string \<rightharpoonup> Symbol_instance"
  next_oid :: nat

definition fresh_interpreter :: interpreter where
  "fresh_interpreter = \<lparr>registry = Map.empty, next_oid = 0\<rparr>"

definition Symbol_new :: "string \<Rightarrow> interpreter \<Rightarrow> Symbol_instance \<times> interpreter" where
  "Symbol_new nm st =
     (case registry st nm of
        Some instance \<Rightarrow> (instance, st)
      | None \<Rightarrow>
          let instance = \<lparr>oid = next_oid st, name = nm, s = SXSym nm\<rparr>
          in (instance, st\<lparr>registry := (registry st)(nm \<mapsto> instance),
                          next_oid := Suc (next_oid st)\<rparr>))"

text \<open>A run of constructor calls \<^verbatim>\<open>Symbol(n)\<close>, one per name, returning the instances in order.\<close>

fun Symbols :: "string list \<Rightarrow> interpreter \<Rightarrow> Symbol_instance list \<times> interpreter" where
  "Symbols [] st = ([], st)"
| "Symbols (n # ns) st =
     (let (a, st') = Symbol_new n st; (as, st'') = Symbols ns st' in (a # as, st''))"

text \<open>
  \<^verbatim>\<open>Symbol.__hash__\<close> is \<^verbatim>\<open>hash(self.name)\<close> and \<^verbatim>\<open>Symbol.__eq__\<close> is
  \<^verbatim>\<open>hash(self) == hash(other)\<close>. Python's hash of a string is a machine integer of 64 bits,
  fixed for the life of the process; which function it is depends on the build and on the
  process's seed, so it is a parameter here.
\<close>

definition Symbol_hash :: "(string \<Rightarrow> 64 word) \<Rightarrow> Symbol_instance \<Rightarrow> 64 word" where
  "Symbol_hash str_hash self = str_hash (name self)"

definition Symbol_eq :: "(string \<Rightarrow> 64 word) \<Rightarrow> Symbol_instance \<Rightarrow> Symbol_instance \<Rightarrow> bool" where
  "Symbol_eq str_hash self other = (Symbol_hash str_hash self = Symbol_hash str_hash other)"

definition is_same :: "Symbol_instance \<Rightarrow> Symbol_instance \<Rightarrow> bool" where
  "is_same a b = (oid a = oid b)"

section \<open>The compilation engine\<close>

text \<open>
  \<^verbatim>\<open>CompiledFunction\<close> hands the expression and the parameter groups to the engine
  (\<^verbatim>\<open>ca.Function\<close>), takes the function's buffer and evaluator, and binds its own output
  array as the function's result. The engine's side is modelled as follows.
  \<^item> A function has one input per parameter group. The engine refuses to build it when a
    symbol occurs twice among the inputs or a symbol of the expression is not an input.
  \<^item> The buffer has one argument slot per input, unbound at first. \<^verbatim>\<open>set_arg(i, a)\<close> binds
    slot \<open>i\<close> to the array \<open>a\<close>; the engine raises when there is no such slot or the array
    is shorter than the input.
  \<^item> The evaluator reads symbol \<open>k\<close> of input \<open>i\<close> from position \<open>k\<close> of the array bound to
    slot \<open>i\<close>, and reads 0 from a slot that was never bound; it writes the values of the
    output's entries into the bound result array.
  An array is the list of its numbers; that a bound array is shared with the caller is not
  tracked.
\<close>

datatype parameters =
    NoParameters
  | FlatParameters "string list"
  | GroupedParameters "string list list"

datatype ndarray =
    NDArray "real list" "nat \<times> nat"
  | CSC "real list" "nat list" "nat list" "nat \<times> nat"

record CompiledFunction =
  sparse :: bool
  symbol_parameters :: "string list list"
  function_inputs :: "string list list"
  function_output :: "SXElem list"
  function_buffer :: "real list option list"
  out :: ndarray
  replaced_call :: "ndarray option"

text \<open>\<^verbatim>\<open>expression.free_symbols()\<close>: the symbols of the expression, each once.\<close>

definition free_symbols :: "SX \<Rightarrow> string list" where
  "free_symbols expression = remdups (concat (map symvar (nz expression)))"

fun index_of :: "string list \<Rightarrow> string \<Rightarrow> nat option" where
  "index_of [] n = None"
| "index_of (x # xs) n = (if x = n then Some 0 else map_option Suc (index_of xs n))"

fun find_input :: "string list list \<Rightarrow> string \<Rightarrow> (nat \<times> nat) option" where
  "find_input [] n = None"
| "find_input (g # gs) n =
     (case index_of g n of
        Some k \<Rightarrow> Some (0, k)
      | None \<Rightarrow> map_option (\<lambda>(i, k). (Suc i, k)) (find_input gs n))"

definition buffer_env :: "string list list \<Rightarrow> real list option list \<Rightarrow> string \<Rightarrow> real" where
  "buffer_env inputs slots n =
     (case find_input inputs n of
        None \<Rightarrow> 0
      | Some (i, k) \<Rightarrow> (case slots ! i of None \<Rightarrow> 0 | Some a \<Rightarrow> a ! k))"

fun set_data :: "ndarray \<Rightarrow> real list \<Rightarrow> ndarray" where
  "set_data (NDArray d shape) v = NDArray v shape"
| "set_data (CSC d indices indptr shape) v = CSC v indices indptr shape"

definition function_evaluator :: "CompiledFunction \<Rightarrow> CompiledFunction" where
  "function_evaluator self =
     self\<lparr>out := set_data (out self)
       (map (evalf (buffer_env (function_inputs self) (function_buffer self)))
          (function_output self))\<rparr>"

definition set_arg :: "CompiledFunction \<Rightarrow> nat \<Rightarrow> real list \<Rightarrow> error + CompiledFunction" where
  "set_arg self i a =
     (if i < length (function_buffer self) \<and> length (function_inputs self ! i) \<le> length a
      then Inr (self\<lparr>function_buffer := (function_buffer self)[i := Some a]\<rparr>)
      else Inl CasadiError)"

text \<open>
  The sparsity pattern after \<^verbatim>\<open>ca.sparsify\<close>, in compressed-column form: for each column
  the rows whose entry is not the constant 0, and the running count of such entries.
\<close>

definition column_rows :: "SX \<Rightarrow> nat \<Rightarrow> nat list" where
  "column_rows x j = filter (\<lambda>i. nz x ! (i + size1 x * j) \<noteq> SXConst 0) [0..<size1 x]"

definition csc_row_indices :: "SX \<Rightarrow> nat list" where
  "csc_row_indices x = concat (map (column_rows x) [0..<size2 x])"

definition csc_column_pointers :: "SX \<Rightarrow> nat list" where
  "csc_column_pointers x =
     map (\<lambda>j. length (concat (map (column_rows x) [0..<j]))) [0..<Suc (size2 x)]"

definition nonzero_entries :: "SX \<Rightarrow> SXElem list" where
  "nonzero_entries x =
     concat (map (\<lambda>j. map (\<lambda>i. nz x ! (i + size1 x * j)) (column_rows x j)) [0..<size2 x])"

text \<open>\<^verbatim>\<open>toarray()\<close> of a compressed-column matrix: the dense array, column by column.\<close>

definition csc_entry :: "real list \<Rightarrow> nat list \<Rightarrow> nat list \<Rightarrow> nat \<Rightarrow> nat \<Rightarrow> real" where
  "csc_entry d indices indptr i j =
     (case filter (\<lambda>p. indices ! p = i) [indptr ! j..<indptr ! Suc j] of
        [] \<Rightarrow> 0
      | p # ps \<Rightarrow> d ! p)"

fun toarray :: "ndarray \<Rightarrow> ndarray" where
  "toarray (NDArray d shape) = NDArray d shape"
| "toarray (CSC d indices indptr (n, m)) =
     NDArray (concat (map (\<lambda>j. map (\<lambda>i. csc_entry d indices indptr i j) [0..<n]) [0..<m])) (n, m)"

text \<open>
  \<^verbatim>\<open>CompiledFunction.__init__\<close>. With no parameter group the evaluator runs once, here, and
  \<^verbatim>\<open>__call__\<close> and \<^verbatim>\<open>fast_call\<close> are replaced on the instance by closures returning that
  result (\<open>replaced_call\<close>).
\<close>

definition CompiledFunction_init :: "SX \<Rightarrow> parameters \<Rightarrow> bool \<Rightarrow> error + CompiledFunction" where
  "CompiledFunction_init expression params sparse_flag =
     (let groups = (case params of
            NoParameters \<Rightarrow>
              (if free_symbols expression \<noteq> [] then [free_symbols expression] else [])
          | FlatParameters ps \<Rightarrow> (if ps \<noteq> [] then [ps] else [])
          | GroupedParameters gs \<Rightarrow> gs);
          shape = (size1 expression, size2 expression)
      in if size1 expression = 0 \<and> sparse_flag
         then Inr \<lparr>sparse = sparse_flag, symbol_parameters = groups, function_inputs = [],
                   function_output = [], function_buffer = [], out = CSC [] [] [0] shape,
                   replaced_call = Some (CSC [] [] (replicate (Suc (size2 expression)) 0) shape)\<rparr>
         else if distinct (concat groups) \<and> set (free_symbols expression) \<subseteq> set (concat groups)
         then
           let self = \<lparr>sparse = sparse_flag, symbol_parameters = groups, function_inputs = groups,
                  function_output =
                    (if sparse_flag then nonzero_entries expression else nz expression),
                  function_buffer = replicate (length groups) None,
                  out = (if sparse_flag
                         then CSC (replicate (length (nonzero_entries expression)) 0)
                                (csc_row_indices expression) (csc_column_pointers expression) shape
                         else NDArray (replicate (length (nz expression)) 0) shape),
                  replaced_call = None\<rparr>
           in if length groups = 0
              then let self' = function_evaluator self;
                       result = (if sparse_flag then toarray (out self') else out self')
                   in Inr (self'\<lparr>replaced_call := Some result\<rparr>)
              else Inr self
         else Inl CasadiError)"

text \<open>
  \<^verbatim>\<open>fast_call(*args)\<close> binds argument \<open>i\<close> to slot \<open>i\<close>, runs the evaluator and returns the
  output array.
\<close>

fun bind_args :: "CompiledFunction \<Rightarrow> nat \<Rightarrow> real list list \<Rightarrow> error + CompiledFunction" where
  "bind_args self arg_idx [] = Inr self"
| "bind_args self arg_idx (arg # args) =
     then_do (set_arg self arg_idx arg) (\<lambda>self'. bind_args self' (Suc arg_idx) args)"

definition fast_call ::
  "CompiledFunction \<Rightarrow> real list list \<Rightarrow> error + ndarray \<times> CompiledFunction" where
  "fast_call self args =
     (case replaced_call self of
        Some result \<Rightarrow> Inr (result, self)
      | None \<Rightarrow>
          then_do (bind_args self 0 args) (\<lambda>self'.
            let self'' = function_evaluator self' in Inr (out self'', self'')))"

text \<open>
  \<^verbatim>\<open>__call__(**kwargs)\<close> collects the values of all parameters, group after group, into one
  array \<^verbatim>\<open>filtered_args\<close> and calls \<^verbatim>\<open>self.fast_call(filtered_args)\<close>, with that one
  argument.
\<close>

fun collect_kwargs :: "(string \<rightharpoonup> real) \<Rightarrow> string list \<Rightarrow> error + real list" where
  "collect_kwargs kwargs [] = Inr []"
| "collect_kwargs kwargs (param # params) =
     (case kwargs param of
        None \<Rightarrow> Inl (KeyError param)
      | Some v \<Rightarrow> then_do (collect_kwargs kwargs params) (\<lambda>vs. Inr (v # vs)))"

definition CompiledFunction_call ::
  "CompiledFunction \<Rightarrow> (string \<rightharpoonup> real) \<Rightarrow> error + ndarray \<times> CompiledFunction" where
  "CompiledFunction_call self kwargs =
     then_do (collect_kwargs kwargs (concat (symbol_parameters self))) (\<lambda>filtered_args.
       fast_call self [filtered_args])"

text \<open>\<^verbatim>\<open>compile(parameters, sparse)\<close> of any expression-like value.\<close>

definition compile :: "pyobj \<Rightarrow> parameters \<Rightarrow> bool \<Rightarrow> error + CompiledFunction" where
  "compile self params sparse_flag = CompiledFunction_init (the (attr_s self)) params sparse_flag"

text \<open>The dense content of a result: what the caller reads from the returned array.\<close>

definition dense_values :: "ndarray \<Rightarrow> real list" where
  "dense_values a = (case toarray a of NDArray d shape \<Rightarrow> d | CSC d indices indptr shape \<Rightarrow> d)"

section \<open>Notions used in the statements\<close>

text \<open>
  The homogeneous-coordinate invariant: a point is a \<open>4 \<times> 1\<close> matrix whose entry 3 is the
  constant 1, a vector one whose entry 3 is the constant 0. It says nothing of other values.
\<close>

definition is_vec4 :: "SX \<Rightarrow> bool" where
  "is_vec4 m = (size1 m = 4 \<and> size2 m = 1 \<and> length (nz m) = 4)"

fun homogeneous_ok :: "pyobj \<Rightarrow> bool" where
  "homogeneous_ok (PyPoint3 m rf) = (is_vec4 m \<and> nz m ! 3 = SXConst 1)"
| "homogeneous_ok (PyVector3 m rf vf) = (is_vec4 m \<and> nz m ! 3 = SXConst 0)"
| "homogeneous_ok other = True"

text \<open>The values of all entries of an object's matrix, and of its first three entries.\<close>

definition entry_values :: "(string \<Rightarrow> real) \<Rightarrow> pyobj \<Rightarrow> real list" where
  "entry_values env v = map (evalf env) (nz (the (attr_s v)))"

definition xyz_values :: "(string \<Rightarrow> real) \<Rightarrow> pyobj \<Rightarrow> real list" where
  "xyz_values env v = take 3 (entry_values env v)"

text \<open>A scalar operand: a number, a symbol, or a \<open>1 \<times> 1\<close> expression.\<close>

fun scalar_operand :: "pyobj \<Rightarrow> bool" where
  "scalar_operand (PyNum r) = True"
| "scalar_operand (PySymbol n) = True"
| "scalar_operand (PyExpression m) = is_scalar m"
| "scalar_operand other = False"

definition scalar_value :: "(string \<Rightarrow> real) \<Rightarrow> pyobj \<Rightarrow> real" where
  "scalar_value env c = the (py_value env c)"

text \<open>
  Multi-way dispatch as the docstring of \<^verbatim>\<open>if_eq_cases\<close> writes it, an \<^verbatim>\<open>if\<close>/\<^verbatim>\<open>elif\<close> chain in
  which the first case whose key equals the scrutinee decides; and the dispatch in which
  the last such case decides.
\<close>

fun first_match :: "real \<Rightarrow> (real \<times> real) list \<Rightarrow> real \<Rightarrow> real" where
  "first_match a [] else_result = else_result"
| "first_match a ((b, b_result) # cases) else_result =
     (if a = b then b_result else first_match a cases else_result)"

definition last_match :: "real \<Rightarrow> (real \<times> real) list \<Rightarrow> real \<Rightarrow> real" where
  "last_match a cases else_result = first_match a (rev cases) else_result"

definition numeric_cases :: "(real \<times> real) list \<Rightarrow> (pyobj \<times> pyobj) list" where
  "numeric_cases cases = map (\<lambda>(b, b_result). (PyNum b, PyNum b_result)) cases"

text \<open>The assignment of the symbols that a call with keyword values describes.\<close>

definition kwargs_env :: "(string \<rightharpoonup> real) \<Rightarrow> string \<Rightarrow> real" where
  "kwargs_env kwargs n = (case kwargs n of Some v \<Rightarrow> v | None \<Rightarrow> 0)"

text \<open>
  The assignment that positional arguments describe: symbol \<open>k\<close> of group \<open>i\<close> has the value at
  position \<open>k\<close> of argument \<open>i\<close>.
\<close>

definition positional_env :: "string list list \<Rightarrow> real list list \<Rightarrow> string \<Rightarrow> real" where
  "positional_env groups args n =
     (case find_input groups n of
        None \<Rightarrow> 0
      | Some (i, k) \<Rightarrow> args ! i ! k)"

text \<open>The norm of a quaternion with entries \<open>x, y, z, w\<close>, as the node \<^verbatim>\<open>self.norm()\<close> builds.\<close>

definition quaternion_norm :: "SXElem \<Rightarrow> SXElem \<Rightarrow> SXElem \<Rightarrow> SXElem \<Rightarrow> SXElem" where
  "quaternion_norm x y z w =
     sx_sqrt (sx_add (sx_add (sx_add (sx_add (SXConst 0) (sx_mul x x)) (sx_mul y y))
       (sx_mul z z)) (sx_mul w w))"

text \<open>A \<open>4 \<times> 1\<close> matrix whose entry 3 is the node \<open>c\<close>.\<close>

definition hom :: "SXElem \<Rightarrow> SX \<Rightarrow> bool" where
  "hom c m = (is_vec4 m \<and> nz m ! 3 = c)"

text \<open>
  The invariant of the registry: an instance is registered under its own name, its identity
  was allocated before, and two registered names never share an instance.
\<close>

definition registry_ok :: "interpreter \<Rightarrow> bool" where
  "registry_ok st =
     ((\<forall>n a. registry st n = Some a \<longrightarrow> name a = n \<and> oid a < next_oid st)
      \<and> (\<forall>n m a b. registry st n = Some a \<and> registry st m = Some b \<and> oid a = oid b \<longrightarrow> n = m))"

text \<open>
  The sixteen entries, column by column, of the matrix that
  \<^verbatim>\<open>__quaternion_to_rotation_matrix\<close> writes for the components \<open>x\<close>, \<open>y\<close>, \<open>z\<close>, \<open>w\<close>; the
  entry \<open>(i, j)\<close> of a \<open>4 \<times> 4\<close> matrix given by its entries; and the sum that \<^verbatim>\<open>trace\<close> builds
  on four rows.
\<close>

definition rotation_entries :: "SXElem \<Rightarrow> SXElem \<Rightarrow> SXElem \<Rightarrow> SXElem \<Rightarrow> SXElem list" where
  "rotation_entries x y z w =
     (let x2 = sx_mul x x; y2 = sx_mul y y; z2 = sx_mul z z; w2 = sx_mul w w;
          two = (\<lambda>a b. sx_mul (sx_mul (SXConst 2) a) b)
      in [sx_sub (sx_sub (sx_add w2 x2) y2) z2, sx_add (two x y) (two w z),
          sx_sub (two x z) (two w y), SXConst 0,
          sx_sub (two x y) (two w z), sx_sub (sx_add (sx_sub w2 x2) y2) z2,
          sx_add (two y z) (two w x), SXConst 0,
          sx_add (two x z) (two w y), sx_sub (two y z) (two w x),
          sx_add (sx_sub (sx_sub w2 x2) y2) z2, SXConst 0,
          SXConst 0, SXConst 0, SXConst 0, SXConst 1])"

definition entry4 :: "SXElem list \<Rightarrow> nat \<Rightarrow> nat \<Rightarrow> SXElem" where
  "entry4 es i j = es ! (i + 4 * j)"

definition trace4 :: "(nat \<Rightarrow> nat \<Rightarrow> SXElem) \<Rightarrow> SXElem" where
  "trace4 r = sx_add (sx_add (sx_add (sx_add (SXConst 0) (r 0 0)) (r 1 1)) (r 2 2)) (r 3 3)"

section \<open>Facts about the engine and the constructors\<close>

lemmas engine_defs = SX_scalar_def SX_num_def SX_column_def SX_zeros_def is_scalar_def
  ca_binary_def ca_unary_def ca_gt_def ca_ge_def ca_if_else_def SX_getitem_def SX_elem_def
  SX_elem2_def SX_getitem2_def SX_setitem_def SX_setitem2_def

lemmas py_defs = to_sx_def Symbol_getitem_def Symbol_getitem2_def Symbol_setitem_def
  Symbol_setitem2_def py_getitem_def as_Expression_def as_Point3_def as_Vector3_def
  Point3_def Point3_init_def Vector3_def

section \<open>Multi-way dispatch (C7)\<close>

text \<open>
  C7. The claim reads \<^verbatim>\<open>if_eq_cases\<close> as giving the result of the first pair whose key
  equals the scrutinee. With the scrutinee \<open>a = 1\<close>, the cases \<open>[(1, 10), (1, 20)]\<close> and the
  default 0, the expression that \<^verbatim>\<open>if_eq_cases\<close> builds has the value 20, the result of the
  last matching pair, where the first-match reading gives 10.
\<close>

theorem if_eq_cases_duplicate_key:
  "result_value (\<lambda>n. 1)
     (if_eq_cases (PySymbol ''a'') [(PyNum 1, PyNum 10), (PyNum 1, PyNum 20)] (PyNum 0)) = Some 20
   \<and> first_match 1 [(1, 10), (1, 20)] 0 = 10"
  by (simp add: if_eq_cases_def result_value_def py_value_def engine_defs py_defs)

section \<open>Three-valued logic (C8)\<close>

lemmas logic_defs = logic_and3_def logic_or3_def logic_not3_def is_false_symbol_def
  is_true_symbol_def is_constant_symbol_def min_expr_def max_expr_def Expression_init_def
  TrinaryFalse_def TrinaryTrue_def TrinaryUnknown_def result_value_def py_value_def
  reflected_method_def Symbol_rsub_def Symbol_rbinary_def

text \<open>
  C8. On the three constants \<open>0\<close>, \<open>1/2\<close>, \<open>1\<close> the result of \<^verbatim>\<open>logic_and3\<close> has the value
  \<open>min x y\<close>, that of \<^verbatim>\<open>logic_or3\<close> the value \<open>max x y\<close> and that of \<^verbatim>\<open>logic_not3\<close> the value
  \<open>1 - x\<close>; \<^verbatim>\<open>logic_and3(TrinaryTrue, TrinaryUnknown)\<close> is \<^verbatim>\<open>TrinaryUnknown\<close> itself and
  \<^verbatim>\<open>logic_or3(TrinaryFalse, TrinaryUnknown)\<close> has the value of \<^verbatim>\<open>TrinaryUnknown\<close>. The same
  holds of symbolic operands, for the values the symbols are given.
\<close>

theorem trinary_logic_min_max:
  assumes "x \<in> {TrinaryFalse, TrinaryUnknown, TrinaryTrue}"
      and "y \<in> {TrinaryFalse, TrinaryUnknown, TrinaryTrue}"
  shows "result_value env (logic_and3 (PyNum x) (PyNum y)) = Some (min x y)
     \<and> result_value env (logic_or3 (PyNum x) (PyNum y)) = Some (max x y)
     \<and> result_value env (logic_not3 (PyNum x)) = Some (1 - x)
     \<and> logic_and3 (PyNum TrinaryTrue) (PyNum TrinaryUnknown) = Inr (PyNum TrinaryUnknown)
     \<and> result_value env (logic_or3 (PyNum TrinaryFalse) (PyNum TrinaryUnknown)) = Some TrinaryUnknown
     \<and> result_value env (logic_and3 (PySymbol a) (PySymbol b)) = Some (min (env a) (env b))
     \<and> result_value env (logic_or3 (PySymbol a) (PySymbol b)) = Some (max (env a) (env b))
     \<and> result_value env (logic_not3 (PySymbol a)) = Some (1 - env a)"
  using assms
  by (auto simp add: logic_defs engine_defs py_defs)

theorem trinary_logic_min_max_witness:
  "TrinaryTrue \<in> {TrinaryFalse, TrinaryUnknown, TrinaryTrue}
   \<and> TrinaryUnknown \<in> {TrinaryFalse, TrinaryUnknown, TrinaryTrue}
   \<and> result_value (\<lambda>n. 0) (logic_and3 (PyNum TrinaryTrue) (PyNum TrinaryUnknown)) = Some (1 / 2)
   \<and> result_value (\<lambda>n. 0) (logic_or3 (PyNum TrinaryTrue) (PyNum TrinaryUnknown)) = Some 1
   \<and> result_value (\<lambda>n. 0) (logic_not3 (PyNum TrinaryTrue)) = Some 0"
  using trinary_logic_min_max [of TrinaryTrue TrinaryUnknown "\<lambda>n. 0" "''a''" "''b''"]
  by (simp add: TrinaryFalse_def TrinaryTrue_def TrinaryUnknown_def result_value_def py_value_def)

section \<open>The type rule of if_else (C6)\<close>

lemma frame_type_not_number: "is_frame_type a \<Longrightarrow> wrap_number a = a \<and> class_name a \<noteq> ''Expression''"
  by (cases a) (simp_all add: wrap_number_def)

lemma wrap_number_class:
  "is_frame_type a \<Longrightarrow> class_name a \<noteq> class_name b \<Longrightarrow> class_name a \<noteq> class_name (wrap_number b)"
  by (cases b; cases a) (simp_all add: wrap_number_def)

text \<open>
  C6, as amended. When the if-branch is of a frame-carrying class and the else-branch is of
  another class, \<^verbatim>\<open>if_else\<close> raises. The test is made on the if-branch only: with a number
  as the if-branch and a frame-carrying else-branch the call returns an \<^verbatim>\<open>Expression\<close>.
\<close>

theorem if_else_type_rule:
  "(is_frame_type a \<and> class_name a \<noteq> class_name b \<longrightarrow> (\<exists>e. if_else c a b = Inl e))
   \<and> (is_frame_type b \<longrightarrow>
        (\<exists>r. if_else (PySymbol n) (PyNum x) b = Inr r \<and> class_name r = ''Expression''))"
proof (intro conjI impI)
  assume h: "is_frame_type a \<and> class_name a \<noteq> class_name b"
  then have w: "wrap_number a = a" and d: "class_name a \<noteq> class_name (wrap_number b)"
    using frame_type_not_number wrap_number_class by blast+
  show "\<exists>e. if_else c a b = Inl e"
  proof (cases "Expression_init c")
    case (Inl e)
    then show ?thesis by (simp add: if_else_def)
  next
    case (Inr m)
    then show ?thesis using h w d by (simp add: if_else_def Let_def)
  qed
next
  assume "is_frame_type b"
  then show "\<exists>r. if_else (PySymbol n) (PyNum x) b = Inr r \<and> class_name r = ''Expression''"
    by (cases b)
      (simp_all add: if_else_def wrap_number_def Expression_init_def return_type_call_def
        engine_defs Let_def)
qed

theorem if_else_type_rule_witness:
  "is_frame_type (PyPoint3 (SX_column [SXConst 0, SXConst 0, SXConst 0, SXConst 1]) None)
   \<and> class_name (PyPoint3 (SX_column [SXConst 0, SXConst 0, SXConst 0, SXConst 1]) None)
       \<noteq> class_name (PyVector3 (SX_column [SXConst 0, SXConst 0, SXConst 0, SXConst 0]) None None)
   \<and> if_else (PySymbol ''c'')
        (PyPoint3 (SX_column [SXConst 0, SXConst 0, SXConst 0, SXConst 1]) None)
        (PyVector3 (SX_column [SXConst 0, SXConst 0, SXConst 0, SXConst 0]) None None)
       = Inl AssertionError
   \<and> is_frame_type (PyVector3 (SX_column [SXConst 0, SXConst 0, SXConst 0, SXConst 0]) None None)
   \<and> (\<exists>r. if_else (PySymbol ''c'') (PyNum 1)
          (PyVector3 (SX_column [SXConst 0, SXConst 0, SXConst 0, SXConst 0]) None None) = Inr r)"
  using if_else_type_rule [of "PyPoint3 (SX_column [SXConst 0, SXConst 0, SXConst 0, SXConst 1]) None"
      "PyVector3 (SX_column [SXConst 0, SXConst 0, SXConst 0, SXConst 0]) None None"
      "PySymbol ''c''" "''c''" 1]
  by (auto simp add: if_else_def wrap_number_def Expression_init_def Let_def)

text \<open>
  C6 as stated fails: the else-branch is a \<^verbatim>\<open>Vector3\<close>, the if-branch a number, the classes
  differ, and the call returns a value. (\<^verbatim>\<open>save_division\<close> makes such calls.)
\<close>

theorem if_else_accepts_frame_else_branch:
  "is_frame_type (PyVector3 (SX_column [SXConst 0, SXConst 0, SXConst 0, SXConst 0]) None None)
   \<and> class_name (PyNum 1)
       \<noteq> class_name (PyVector3 (SX_column [SXConst 0, SXConst 0, SXConst 0, SXConst 0]) None None)
   \<and> (\<exists>r. if_else (PySymbol ''c'') (PyNum 1)
          (PyVector3 (SX_column [SXConst 0, SXConst 0, SXConst 0, SXConst 0]) None None) = Inr r
        \<and> class_name r = ''Expression'')"
  by (simp add: if_else_def wrap_number_def Expression_init_def return_type_call_def
        engine_defs Let_def)

section \<open>The axis accessors of a rotation matrix (C9)\<close>

lemma fourth_column_slice:
  assumes "size1 m = 4" "size2 m = 4" "length (nz m) = 16"
  shows "SX_slice m 4 3 = \<lparr>size1 = 4, size2 = 1, nz = [nz m ! 12, nz m ! 13, nz m ! 14, nz m ! 15]\<rparr>"
  using assms by (simp add: SX_slice_def Let_def numeral_eq_Suc)

lemma Vector3_of_column:
  assumes "nz v = [a, b, c, d]"
  shows "Vector3 (PyExpression v) rf = Inr (PyVector3 (SX_column [a, b, c, SXConst 0]) rf rf)"
  using assms by (simp add: Vector3_def Point3_init_def py_defs engine_defs Let_def)

text \<open>
  C9. \<^verbatim>\<open>x_vector\<close>, \<^verbatim>\<open>y_vector\<close> and \<^verbatim>\<open>z_vector\<close> return the same value for every receiver. For
  a \<open>4 \<times> 4\<close> matrix it is the vector of the first three entries of the fourth column (entries
  12 to 14 of the column-major storage) with 0 as its entry 3; when the fourth column is
  \<open>(0, 0, 0, 1)\<close> it is the zero vector.
\<close>

theorem axis_vectors_are_fourth_column:
  "RotationMatrix_x_vector R = RotationMatrix_y_vector R
   \<and> RotationMatrix_y_vector R = RotationMatrix_z_vector R
   \<and> (size1 m = 4 \<and> size2 m = 4 \<and> length (nz m) = 16 \<longrightarrow>
        RotationMatrix_x_vector (PyRotationMatrix m rf cf)
          = Inr (PyVector3 (SX_column [nz m ! 12, nz m ! 13, nz m ! 14, SXConst 0]) rf rf)
        \<and> (nz m ! 12 = SXConst 0 \<and> nz m ! 13 = SXConst 0 \<and> nz m ! 14 = SXConst 0
              \<and> nz m ! 15 = SXConst 1 \<longrightarrow>
            RotationMatrix_x_vector (PyRotationMatrix m rf cf)
              = Inr (PyVector3 (SX_column [SXConst 0, SXConst 0, SXConst 0, SXConst 0]) rf rf)))"
proof -
  have "RotationMatrix_x_vector (PyRotationMatrix m rf cf)
          = Inr (PyVector3 (SX_column [nz m ! 12, nz m ! 13, nz m ! 14, SXConst 0]) rf rf)"
    if "size1 m = 4" "size2 m = 4" "length (nz m) = 16"
    using that
    by (simp add: RotationMatrix_x_vector_def fourth_column_slice Vector3_of_column)
  then show ?thesis
    by (auto simp add: RotationMatrix_x_vector_def RotationMatrix_y_vector_def
        RotationMatrix_z_vector_def)
qed

theorem axis_vectors_are_fourth_column_witness:
  "(let m = \<lparr>size1 = 4, size2 = 4, nz =
       [SXConst 1, SXConst 0, SXConst 0, SXConst 0, SXConst 0, SXConst 1, SXConst 0, SXConst 0,
        SXConst 0, SXConst 0, SXConst 1, SXConst 0, SXConst 0, SXConst 0, SXConst 0, SXConst 1]\<rparr>
    in size1 m = 4 \<and> size2 m = 4 \<and> length (nz m) = 16
     \<and> nz m ! 12 = SXConst 0 \<and> nz m ! 13 = SXConst 0 \<and> nz m ! 14 = SXConst 0
     \<and> nz m ! 15 = SXConst 1
     \<and> RotationMatrix_x_vector (PyRotationMatrix m None None)
         = Inr (PyVector3 (SX_column [SXConst 0, SXConst 0, SXConst 0, SXConst 0]) None None)
     \<and> RotationMatrix_z_vector (PyRotationMatrix m None None)
         = Inr (PyVector3 (SX_column [SXConst 0, SXConst 0, SXConst 0, SXConst 0]) None None))"
  using axis_vectors_are_fourth_column
    [of "PyRotationMatrix \<lparr>size1 = 4, size2 = 4, nz =
       [SXConst 1, SXConst 0, SXConst 0, SXConst 0, SXConst 0, SXConst 1, SXConst 0, SXConst 0,
        SXConst 0, SXConst 0, SXConst 1, SXConst 0, SXConst 0, SXConst 0, SXConst 0, SXConst 1]\<rparr> None None"
       "\<lparr>size1 = 4, size2 = 4, nz =
       [SXConst 1, SXConst 0, SXConst 0, SXConst 0, SXConst 0, SXConst 1, SXConst 0, SXConst 0,
        SXConst 0, SXConst 0, SXConst 1, SXConst 0, SXConst 0, SXConst 0, SXConst 0, SXConst 1]\<rparr>"
       None None]
  by (auto simp add: Let_def)

section \<open>to_axis_angle changes its receiver (C10)\<close>

lemma Quaternion_normalize_column:
  "Quaternion_normalize (PyQuaternion (SX_column [x, y, z, w]) rf)
     = Inr (PyQuaternion
         (SX_column [sx_div x (quaternion_norm x y z w), sx_div y (quaternion_norm x y z w),
                     sx_div z (quaternion_norm x y z w), sx_div w (quaternion_norm x y z w)]) rf)"
  by (simp add: Quaternion_normalize_def norm_expr_def Expression_init_def ca_norm_2_def
      divide_entry_def Expression_truediv_def Expression_binary_def set_s_def
      quaternion_norm_def sx_div_def engine_defs py_defs)

lemma to_axis_angle_after_normalize:
  assumes "Quaternion_normalize q = Inr (PyQuaternion (SX_column [a, b, c, d]) rf)"
  shows "\<exists>axis angle. Quaternion_to_axis_angle q
            = Inr ((axis, angle), PyQuaternion (SX_column [a, b, c, d]) rf)"
  using assms
  by (simp add: Quaternion_to_axis_angle_def Expression_pow_def Expression_rsub_def
      Expression_rmul_def Expression_truediv_def Expression_binary_def Expression_rbinary_def
      sqrt_expr_def acos_expr_def limit_def min_expr_def max_expr_def if_eq_zero_def if_else_def
      wrap_number_def return_type_call_def Expression_init_def Vector3_def Point3_init_def
      engine_defs py_defs Let_def)

lemma quaternion_norm_value:
  "evalf env (quaternion_norm x y z w)
     = sqrt ((evalf env x)\<^sup>2 + (evalf env y)\<^sup>2 + (evalf env z)\<^sup>2 + (evalf env w)\<^sup>2)"
  by (simp add: quaternion_norm_def sx_sqrt_def sx_add_def sx_mul_def power2_eq_square)

text \<open>
  C10. A quaternion's matrix is the column of its four entries \<open>x, y, z, w\<close>. After
  \<^verbatim>\<open>to_axis_angle()\<close> the receiver is the quaternion whose entries are \<open>x, y, z, w\<close> each divided
  by the norm of the original entries, with the same frame; that is the receiver
  \<^verbatim>\<open>normalize()\<close> leaves. The call returns (it does not raise), and the value of each new
  entry is the old value over the square root of the sum of the four squares.
\<close>

theorem to_axis_angle_normalizes_receiver:
  "(\<exists>axis angle. Quaternion_to_axis_angle (PyQuaternion (SX_column [x, y, z, w]) rf)
      = Inr ((axis, angle),
          PyQuaternion
            (SX_column [sx_div x (quaternion_norm x y z w), sx_div y (quaternion_norm x y z w),
                        sx_div z (quaternion_norm x y z w), sx_div w (quaternion_norm x y z w)])
            rf))
   \<and> Quaternion_normalize (PyQuaternion (SX_column [x, y, z, w]) rf)
      = Inr (PyQuaternion
          (SX_column [sx_div x (quaternion_norm x y z w), sx_div y (quaternion_norm x y z w),
                      sx_div z (quaternion_norm x y z w), sx_div w (quaternion_norm x y z w)])
          rf)
   \<and> map (evalf env)
        [sx_div x (quaternion_norm x y z w), sx_div y (quaternion_norm x y z w),
         sx_div z (quaternion_norm x y z w), sx_div w (quaternion_norm x y z w)]
      = map (\<lambda>e. evalf env e
               / sqrt ((evalf env x)\<^sup>2 + (evalf env y)\<^sup>2 + (evalf env z)\<^sup>2 + (evalf env w)\<^sup>2))
          [x, y, z, w]"
proof (intro conjI)
  show "\<exists>axis angle. Quaternion_to_axis_angle (PyQuaternion (SX_column [x, y, z, w]) rf)
      = Inr ((axis, angle),
          PyQuaternion
            (SX_column [sx_div x (quaternion_norm x y z w), sx_div y (quaternion_norm x y z w),
                        sx_div z (quaternion_norm x y z w), sx_div w (quaternion_norm x y z w)])
            rf)"
    by (rule to_axis_angle_after_normalize) (rule Quaternion_normalize_column)
  show "Quaternion_normalize (PyQuaternion (SX_column [x, y, z, w]) rf)
      = Inr (PyQuaternion
          (SX_column [sx_div x (quaternion_norm x y z w), sx_div y (quaternion_norm x y z w),
                      sx_div z (quaternion_norm x y z w), sx_div w (quaternion_norm x y z w)])
          rf)"
    by (rule Quaternion_normalize_column)
  show "map (evalf env)
        [sx_div x (quaternion_norm x y z w), sx_div y (quaternion_norm x y z w),
         sx_div z (quaternion_norm x y z w), sx_div w (quaternion_norm x y z w)]
      = map (\<lambda>e. evalf env e
               / sqrt ((evalf env x)\<^sup>2 + (evalf env y)\<^sup>2 + (evalf env z)\<^sup>2 + (evalf env w)\<^sup>2))
          [x, y, z, w]"
    by (simp add: sx_div_def quaternion_norm_value)
qed

section \<open>The homogeneous-coordinate invariant (C3)\<close>

lemma SX_setitem_hom:
  assumes "SX_setitem m i v = Inr m'" "i \<noteq> 3" "hom c m"
  shows "hom c m'"
  using assms by (auto simp add: SX_setitem_def hom_def is_vec4_def split: if_splits)

lemma then_do_Inr: "then_do r f = Inr y \<Longrightarrow> \<exists>x. r = Inr x \<and> f x = Inr y"
  by (cases r) auto

lemma Symbol_setitem_hom:
  assumes "Symbol_setitem m i v = Inr m'" "i \<noteq> 3" "hom c m"
  shows "hom c m'"
proof -
  from assms(1) obtain x where "SX_setitem m i x = Inr m'"
    unfolding Symbol_setitem_def by (blast dest: then_do_Inr)
  then show ?thesis using assms(2,3) by (rule SX_setitem_hom)
qed

lemma hom_start: "hom (SXConst 1) (SX_column [SXConst 0, SXConst 0, SXConst 0, SXConst 1])"
  by (simp add: hom_def is_vec4_def SX_column_def)

lemma Point3_init_homogeneous:
  assumes "Point3_init data rf = Inr (m, rf')"
  shows "hom (SXConst 1) m"
proof -
  let ?s0 = "SX_column [SXConst 0, SXConst 0, SXConst 0, SXConst 1]"
  have attrs: "hom (SXConst 1) m"
    if "then_do (SX_getitem d 0) (\<lambda>x. then_do (SX_setitem ?s0 0 x) (\<lambda>s1.
            then_do (SX_getitem d 1) (\<lambda>y. then_do (SX_setitem s1 1 y) (\<lambda>s2.
            then_do (SX_getitem d 2) (\<lambda>z. then_do (SX_setitem s2 2 z) (\<lambda>s3.
            Inr (s3, f))))))) = Inr (m, rf')" for d f
  proof -
    from that obtain x m1 y m2 z where
      s: "SX_setitem ?s0 0 x = Inr m1" "SX_setitem m1 1 y = Inr m2" "SX_setitem m2 2 z = Inr m"
      by (auto dest!: then_do_Inr)
    from SX_setitem_hom[OF s(1) _ hom_start] have "hom (SXConst 1) m1" by simp
    from SX_setitem_hom[OF s(2) _ this] have "hom (SXConst 1) m2" by simp
    from SX_setitem_hom[OF s(3) _ this] show ?thesis by simp
  qed
  have items: "hom (SXConst 1) m"
    if "then_do (py_getitem data 0) (\<lambda>d0. then_do (Symbol_setitem ?s0 0 d0) (\<lambda>s1.
          then_do (py_getitem data 1) (\<lambda>d1. then_do (Symbol_setitem s1 1 d1) (\<lambda>s2.
          then_do (py_getitem data 2) (\<lambda>d2. then_do (Symbol_setitem s2 2 d2) (\<lambda>s3.
          Inr (s3, rf))))))) = Inr (m, rf')"
  proof -
    from that obtain x m1 y m2 z where
      s: "Symbol_setitem ?s0 0 x = Inr m1" "Symbol_setitem m1 1 y = Inr m2"
         "Symbol_setitem m2 2 z = Inr m"
      by (auto dest!: then_do_Inr)
    from Symbol_setitem_hom[OF s(1) _ hom_start] have "hom (SXConst 1) m1" by simp
    from Symbol_setitem_hom[OF s(2) _ this] have "hom (SXConst 1) m2" by simp
    from Symbol_setitem_hom[OF s(3) _ this] show ?thesis by simp
  qed
  show ?thesis
    using assms
    by (cases data) (auto simp add: Point3_init_def Let_def hom_start
        intro: attrs items simp del: then_do.simps)
qed

lemma Point3_homogeneous: "Point3 data rf = Inr p \<Longrightarrow> homogeneous_ok p \<and> class_name p = ''Point3''"
  using Point3_init_homogeneous
  by (auto simp add: Point3_def hom_def dest!: then_do_Inr)

lemma Vector3_homogeneous: "Vector3 data rf = Inr v \<Longrightarrow> homogeneous_ok v \<and> class_name v = ''Vector3''"
proof -
  assume "Vector3 data rf = Inr v"
  then obtain m f m' where i: "Point3_init data rf = Inr (m, f)"
    and s: "Symbol_setitem m 3 (PyNum 0) = Inr m'" and v: "v = PyVector3 m' f f"
    by (auto simp add: Vector3_def dest!: then_do_Inr)
  from Point3_init_homogeneous[OF i] have "is_vec4 m" by (simp add: hom_def)
  with s have "is_vec4 m' \<and> nz m' ! 3 = SXConst 0"
    by (auto simp add: Symbol_setitem_def to_sx_def SX_setitem_def SX_num_def SX_scalar_def
        is_vec4_def split: if_splits)
  with v show ?thesis by simp
qed


lemma as_Point3_homogeneous: "as_Point3 r = Inr p \<Longrightarrow> homogeneous_ok p \<and> class_name p = ''Point3''"
  by (auto simp add: as_Point3_def dest!: then_do_Inr dest: Point3_homogeneous)

lemma as_Vector3_homogeneous: "as_Vector3 r = Inr p \<Longrightarrow> homogeneous_ok p \<and> class_name p = ''Vector3''"
  by (auto simp add: as_Vector3_def dest!: then_do_Inr dest: Vector3_homogeneous)

lemma as_Expression_homogeneous: "as_Expression r = Inr p \<Longrightarrow> homogeneous_ok p"
  by (auto simp add: as_Expression_def dest!: then_do_Inr)

lemma set_reference_frame_homogeneous [simp]:
  "homogeneous_ok (set_reference_frame f p) = homogeneous_ok p"
  by (cases p) simp_all

lemma with_frame_of_homogeneous:
  "with_frame_of self r = Inr p \<Longrightarrow> \<exists>p'. r = Inr p' \<and> homogeneous_ok p = homogeneous_ok p'"
  by (auto simp add: with_frame_of_def dest!: then_do_Inr)

lemmas result_homogeneous = as_Point3_homogeneous as_Vector3_homogeneous as_Expression_homogeneous

lemma Symbol_binary_homogeneous: "Symbol_binary f a b = Inr r \<Longrightarrow> homogeneous_ok r"
  by (cases b) (auto simp add: Symbol_binary_def Let_def dest: result_homogeneous dest!: then_do_Inr)

lemma Symbol_rbinary_homogeneous: "Symbol_rbinary f a b = Inr r \<Longrightarrow> homogeneous_ok r"
  by (cases b) (auto simp add: Symbol_rbinary_def dest: result_homogeneous)

lemma Expression_binary_homogeneous: "Expression_binary f a b = Inr r \<Longrightarrow> homogeneous_ok r"
  by (cases b) (auto simp add: Expression_binary_def Let_def dest: result_homogeneous)

lemma Expression_rbinary_homogeneous: "Expression_rbinary f a b = Inr r \<Longrightarrow> homogeneous_ok r"
  by (cases b) (auto simp add: Expression_rbinary_def dest: result_homogeneous)

lemma framed_homogeneous:
  "with_frame_of self (as_Point3 x) = Inr r \<Longrightarrow> homogeneous_ok r"
  "with_frame_of self (as_Vector3 x) = Inr r \<Longrightarrow> homogeneous_ok r"
  by (auto dest!: with_frame_of_homogeneous dest: result_homogeneous)

lemma Point3_methods_homogeneous:
  "Point3_add a b = Inr r \<Longrightarrow> homogeneous_ok r"
  "Point3_radd a b = Inr r \<Longrightarrow> homogeneous_ok r"
  "Point3_sub a b = Inr r \<Longrightarrow> homogeneous_ok r"
  "Point3_rsub a b = Inr r \<Longrightarrow> homogeneous_ok r"
  "Point3_scalar_op f a b = Inr r \<Longrightarrow> homogeneous_ok r"
  "Point3_rmul a b = Inr r \<Longrightarrow> homogeneous_ok r"
  "Point3_rtruediv a b = Inr r \<Longrightarrow> homogeneous_ok r"
  "Point3_rpow a b = Inr r \<Longrightarrow> homogeneous_ok r"
  "Point3_neg a = Inr r \<Longrightarrow> homogeneous_ok r"
  by (cases b; auto simp add: Point3_add_def Point3_radd_def Point3_sub_def Point3_rsub_def
      Point3_scalar_op_def Point3_rmul_def Point3_rtruediv_def Point3_rpow_def Point3_neg_def
      Let_def dest: framed_homogeneous)+

lemma Vector3_methods_homogeneous:
  "Vector3_add a b = Inr r \<Longrightarrow> homogeneous_ok r"
  "Vector3_radd a b = Inr r \<Longrightarrow> homogeneous_ok r"
  "Vector3_sub a b = Inr r \<Longrightarrow> homogeneous_ok r"
  "Vector3_rsub a b = Inr r \<Longrightarrow> homogeneous_ok r"
  "Vector3_scalar_op f a b = Inr r \<Longrightarrow> homogeneous_ok r"
  "Vector3_rmul a b = Inr r \<Longrightarrow> homogeneous_ok r"
  "Vector3_rtruediv a b = Inr r \<Longrightarrow> homogeneous_ok r"
  "Vector3_rpow a b = Inr r \<Longrightarrow> homogeneous_ok r"
  "Vector3_neg a = Inr r \<Longrightarrow> homogeneous_ok r"
  by (cases b; auto simp add: Vector3_add_def Vector3_radd_def Vector3_sub_def Vector3_rsub_def
      Vector3_scalar_op_def Vector3_rmul_def Vector3_rtruediv_def Vector3_rpow_def Vector3_neg_def
      Let_def dest: framed_homogeneous)+

lemmas method_defs = Symbol_add_def Symbol_radd_def Symbol_sub_def Symbol_rsub_def Symbol_mul_def
  Symbol_rmul_def Symbol_truediv_def Symbol_rtruediv_def Symbol_pow_def Symbol_rpow_def
  Expression_add_def Expression_radd_def Expression_sub_def Expression_rsub_def
  Expression_mul_def Expression_rmul_def Expression_truediv_def Expression_rtruediv_def
  Expression_pow_def Expression_rpow_def Point3_mul_def Point3_truediv_def Point3_pow_def
  Vector3_mul_def Vector3_truediv_def Vector3_pow_def

lemmas method_homogeneous = Symbol_binary_homogeneous Symbol_rbinary_homogeneous
  Expression_binary_homogeneous Expression_rbinary_homogeneous Point3_methods_homogeneous
  Vector3_methods_homogeneous

lemma forward_method_homogeneous: "forward_method f a b = Some (Inr r) \<Longrightarrow> homogeneous_ok r"
  by (cases a; cases f)
    (auto simp add: forward_method_def method_defs dest: method_homogeneous)

lemma reflected_method_homogeneous: "reflected_method f b a = Some (Inr r) \<Longrightarrow> homogeneous_ok r"
  by (cases b; cases f)
    (auto simp add: reflected_method_def method_defs dest: method_homogeneous)

lemma py_binop_homogeneous: "py_binop f a b = Some (Inr r) \<Longrightarrow> homogeneous_ok r"
  by (auto simp add: py_binop_def split: option.splits
      dest: forward_method_homogeneous reflected_method_homogeneous)

lemma py_neg_homogeneous: "py_neg a = Some (Inr r) \<Longrightarrow> homogeneous_ok r"
  by (cases a)
    (auto simp add: py_neg_def Symbol_neg_def Expression_neg_def dest: method_homogeneous)

text \<open>
  C3. Every \<^verbatim>\<open>Point3\<close> that a constructor returns, whatever the data, is a \<open>4 \<times> 1\<close> matrix
  whose entry 3 is the constant 1, and every \<^verbatim>\<open>Vector3\<close> one whose entry 3 is the constant
  0. The same holds of the result of every binary operation \<^verbatim>\<open>+ - * / **\<close> and of unary minus
  that the classes of the module decide, for all operands: the methods build each point or
  vector result through the constructor. Such an entry has the value 1, respectively 0, under
  every assignment of the symbols.
\<close>

theorem homogeneous_coordinate_invariant:
  "(Point3 data rf = Inr r \<longrightarrow> homogeneous_ok r \<and> class_name r = ''Point3'')
   \<and> (Vector3 data rf = Inr r \<longrightarrow> homogeneous_ok r \<and> class_name r = ''Vector3'')
   \<and> (Point3_from_xyz x y z rf = Inr r \<longrightarrow> homogeneous_ok r \<and> class_name r = ''Point3'')
   \<and> (Vector3_from_xyz x y z rf = Inr r \<longrightarrow> homogeneous_ok r \<and> class_name r = ''Vector3'')
   \<and> (py_binop f a b = Some (Inr r) \<longrightarrow> homogeneous_ok r)
   \<and> (py_neg a = Some (Inr r) \<longrightarrow> homogeneous_ok r)
   \<and> (homogeneous_ok (PyPoint3 m rf') \<longrightarrow> evalf env (nz m ! 3) = 1)
   \<and> (homogeneous_ok (PyVector3 m rf' vf) \<longrightarrow> evalf env (nz m ! 3) = 0)"
  using Point3_homogeneous Vector3_homogeneous py_binop_homogeneous py_neg_homogeneous
  by (auto simp add: Point3_from_xyz_def Vector3_from_xyz_def Let_def)

theorem homogeneous_coordinate_invariant_witness:
  "py_binop Minus
      (PyPoint3 (SX_column [SXConst 1, SXConst 2, SXConst 3, SXConst 1]) None)
      (PyPoint3 (SX_column [SXConst 1, SXSym ''a'', SXConst 0, SXConst 1]) None)
     = Some (Inr (PyVector3 (SX_column
         [SXBinary OP_SUB (SXConst 1) (SXConst 1), SXBinary OP_SUB (SXConst 2) (SXSym ''a''),
          SXBinary OP_SUB (SXConst 3) (SXConst 0), SXConst 0]) None None))
   \<and> homogeneous_ok (PyVector3 (SX_column
         [SXBinary OP_SUB (SXConst 1) (SXConst 1), SXBinary OP_SUB (SXConst 2) (SXSym ''a''),
          SXBinary OP_SUB (SXConst 3) (SXConst 0), SXConst 0]) None None)"
  using homogeneous_coordinate_invariant
    [where f = Minus
       and a = "PyPoint3 (SX_column [SXConst 1, SXConst 2, SXConst 3, SXConst 1]) None"
       and b = "PyPoint3 (SX_column [SXConst 1, SXSym ''a'', SXConst 0, SXConst 1]) None"
       and r = "PyVector3 (SX_column
         [SXBinary OP_SUB (SXConst 1) (SXConst 1), SXBinary OP_SUB (SXConst 2) (SXSym ''a''),
          SXBinary OP_SUB (SXConst 3) (SXConst 0), SXConst 0]) None None"]
  by (simp add: py_binop_def forward_method_def Point3_sub_def with_frame_of_def Vector3_def
      Point3_init_def is_vec4_def py_defs engine_defs Let_def)

section \<open>The point and vector rows of the dispatch table (C4)\<close>

lemma vec4_column:
  assumes "is_vec4 m"
  obtains a b c d where "m = SX_column [a, b, c, d]"
proof -
  from assms have l: "length (nz m) = 4" and s: "size1 m = 4" "size2 m = 1"
    by (simp_all add: is_vec4_def)
  from l obtain a b c d where "nz m = [a, b, c, d]"
    by (auto simp add: length_Suc_conv numeral_eq_Suc)
  with s have "m = SX_column [a, b, c, d]" by (simp add: SX_column_def)
  then show ?thesis by (rule that)
qed

lemmas dispatch_defs = py_binop_def forward_method_def reflected_method_def method_defs
  Symbol_binary_def Symbol_rbinary_def Expression_binary_def Expression_rbinary_def
  Point3_add_def Point3_radd_def Point3_sub_def Point3_rsub_def Point3_scalar_op_def
  Point3_rmul_def Point3_rtruediv_def Point3_rpow_def
  Vector3_add_def Vector3_radd_def Vector3_sub_def Vector3_rsub_def Vector3_scalar_op_def
  Vector3_rmul_def Vector3_rtruediv_def Vector3_rpow_def
  with_frame_of_def operation_type_error_def Vector3_def Point3_init_def
  xyz_values_def entry_values_def scalar_value_def py_value_def

lemma point_vector_rows:
  "\<exists>r. py_binop Plus (PyPoint3 (SX_column [a, b, c, d]) pf) (PyVector3 (SX_column [a', b', c', d']) vf vvf)
         = Some (Inr r) \<and> class_name r = ''Point3''
       \<and> xyz_values env r = map2 (+) (map (evalf env) [a, b, c]) (map (evalf env) [a', b', c'])"
  "\<exists>r. py_binop Minus (PyPoint3 (SX_column [a, b, c, d]) pf) (PyPoint3 (SX_column [a', b', c', d']) pf')
         = Some (Inr r) \<and> class_name r = ''Vector3''
       \<and> xyz_values env r = map2 (-) (map (evalf env) [a, b, c]) (map (evalf env) [a', b', c'])"
  "py_binop Plus (PyPoint3 m pf) (PyPoint3 m' pf') = Some (Inl (TypeError ''Point3'' ''+'' ''Point3''))"
  "py_binop Times (PyPoint3 m pf) (PyPoint3 m' pf') = Some (Inl (TypeError ''Point3'' ''*'' ''Point3''))"
  by (simp_all add: dispatch_defs py_defs engine_defs Let_def)

lemma scalar_with_point:
  assumes "scalar_operand c" "f \<noteq> Power"
  shows "\<exists>r. py_binop f c (PyPoint3 (SX_column [x, y, z, w]) pf) = Some (Inr r)
           \<and> class_name r = ''Point3''
           \<and> xyz_values env r
              = map (\<lambda>e. binary_val (op_node f) (scalar_value env c) (evalf env e)) [x, y, z]"
    and "\<exists>r. py_binop f (PyPoint3 (SX_column [x, y, z, w]) pf) c = Some (Inr r)
           \<and> class_name r = ''Point3''
           \<and> xyz_values env r
              = map (\<lambda>e. binary_val (op_node f) (evalf env e) (scalar_value env c)) [x, y, z]"
  using assms
  by (cases c; cases f; simp add: dispatch_defs py_defs engine_defs Let_def add.commute mult.commute)+

lemma scalar_with_vector:
  assumes "scalar_operand c" "f \<noteq> Power"
  shows "\<exists>r. py_binop f c (PyVector3 (SX_column [x, y, z, w]) pf vvf) = Some (Inr r)
           \<and> class_name r = ''Vector3''
           \<and> xyz_values env r
              = map (\<lambda>e. binary_val (op_node f) (scalar_value env c) (evalf env e)) [x, y, z]"
    and "\<exists>r. py_binop f (PyVector3 (SX_column [x, y, z, w]) pf vvf) c = Some (Inr r)
           \<and> class_name r = ''Vector3''
           \<and> xyz_values env r
              = map (\<lambda>e. binary_val (op_node f) (evalf env e) (scalar_value env c)) [x, y, z]"
  using assms
  by (cases c; cases f; simp add: dispatch_defs py_defs engine_defs Let_def add.commute mult.commute)+


lemma xyz_values_column [simp]:
  "xyz_values env (PyPoint3 (SX_column [a, b, c, d]) pf) = map (evalf env) [a, b, c]"
  "xyz_values env (PyVector3 (SX_column [a, b, c, d]) vf vvf) = map (evalf env) [a, b, c]"
  by (simp_all add: xyz_values_def entry_values_def SX_column_def)

text \<open>
  C4. For points \<open>p\<close>, \<open>p'\<close> and a vector \<open>v\<close> that satisfy the homogeneous-coordinate invariant
  and a scalar operand \<open>c\<close> (a number, a symbol or a \<open>1 \<times> 1\<close> expression): \<open>p + v\<close> is a
  \<^verbatim>\<open>Point3\<close> and \<open>p - p'\<close> a \<^verbatim>\<open>Vector3\<close>, with the sums and differences of the coordinates;
  \<open>p + p'\<close> and \<open>p * p'\<close> raise the type error naming both classes; and \<open>c\<close> combined with
  \<open>p\<close> or \<open>v\<close> on either side under \<^verbatim>\<open>+ - * /\<close> gives the class of the point or vector
  operand, each coordinate being the operation applied to \<open>c\<close> and that coordinate.
\<close>

theorem point_vector_dispatch:
  assumes "homogeneous_ok (PyPoint3 pm pf)" and "homogeneous_ok (PyPoint3 pm' pf')"
      and "homogeneous_ok (PyVector3 vm vf vvf)"
      and "scalar_operand c" and "f \<in> {Plus, Minus, Times, Over}"
  shows "(\<exists>r. py_binop Plus (PyPoint3 pm pf) (PyVector3 vm vf vvf) = Some (Inr r)
            \<and> class_name r = ''Point3''
            \<and> xyz_values env r
               = map2 (+) (xyz_values env (PyPoint3 pm pf)) (xyz_values env (PyVector3 vm vf vvf)))
    \<and> (\<exists>r. py_binop Minus (PyPoint3 pm pf) (PyPoint3 pm' pf') = Some (Inr r)
            \<and> class_name r = ''Vector3''
            \<and> xyz_values env r
               = map2 (-) (xyz_values env (PyPoint3 pm pf)) (xyz_values env (PyPoint3 pm' pf')))
    \<and> py_binop Plus (PyPoint3 pm pf) (PyPoint3 pm' pf')
         = Some (Inl (TypeError ''Point3'' ''+'' ''Point3''))
    \<and> py_binop Times (PyPoint3 pm pf) (PyPoint3 pm' pf')
         = Some (Inl (TypeError ''Point3'' ''*'' ''Point3''))
    \<and> (\<exists>r. py_binop f c (PyPoint3 pm pf) = Some (Inr r) \<and> class_name r = ''Point3''
            \<and> xyz_values env r
               = map (binary_val (op_node f) (scalar_value env c)) (xyz_values env (PyPoint3 pm pf)))
    \<and> (\<exists>r. py_binop f (PyPoint3 pm pf) c = Some (Inr r) \<and> class_name r = ''Point3''
            \<and> xyz_values env r
               = map (\<lambda>x. binary_val (op_node f) x (scalar_value env c))
                   (xyz_values env (PyPoint3 pm pf)))
    \<and> (\<exists>r. py_binop f c (PyVector3 vm vf vvf) = Some (Inr r) \<and> class_name r = ''Vector3''
            \<and> xyz_values env r
               = map (binary_val (op_node f) (scalar_value env c))
                   (xyz_values env (PyVector3 vm vf vvf)))
    \<and> (\<exists>r. py_binop f (PyVector3 vm vf vvf) c = Some (Inr r) \<and> class_name r = ''Vector3''
            \<and> xyz_values env r
               = map (\<lambda>x. binary_val (op_node f) x (scalar_value env c))
                   (xyz_values env (PyVector3 vm vf vvf)))"
proof -
  from assms(1) obtain a b c0 d where pm: "pm = SX_column [a, b, c0, d]"
    by (auto elim: vec4_column)
  from assms(2) obtain a' b' c' d' where pm': "pm' = SX_column [a', b', c', d']"
    by (auto elim: vec4_column)
  from assms(3) obtain x y z w where vm: "vm = SX_column [x, y, z, w]"
    by (auto elim: vec4_column)
  from assms(5) have f: "f \<noteq> Power" by auto
  show ?thesis
    unfolding pm pm' vm
    using point_vector_rows(1)[of a b c0 d pf x y z w vf vvf env]
      point_vector_rows(2)[of a b c0 d pf a' b' c' d' pf' env]
      point_vector_rows(3,4)[of "SX_column [a, b, c0, d]" pf "SX_column [a', b', c', d']" pf']
      scalar_with_point[OF assms(4) f, of a b c0 d pf env]
      scalar_with_vector[OF assms(4) f, of x y z w vf vvf env]
    by simp
qed

theorem point_vector_dispatch_witness:
  "homogeneous_ok (PyPoint3 (SX_column [SXConst 1, SXConst 2, SXConst 3, SXConst 1]) None)
   \<and> homogeneous_ok (PyVector3 (SX_column [SXConst 1, SXConst 0, SXConst 0, SXConst 0]) None None)
   \<and> scalar_operand (PyNum 2) \<and> Times \<in> {Plus, Minus, Times, Over}
   \<and> py_binop Plus (PyPoint3 (SX_column [SXConst 1, SXConst 2, SXConst 3, SXConst 1]) None)
        (PyPoint3 (SX_column [SXConst 1, SXConst 2, SXConst 3, SXConst 1]) None)
       = Some (Inl (TypeError ''Point3'' ''+'' ''Point3''))
   \<and> (\<exists>r. py_binop Times (PyNum 2)
              (PyVector3 (SX_column [SXConst 1, SXConst 0, SXConst 0, SXConst 0]) None None)
            = Some (Inr r) \<and> class_name r = ''Vector3''
          \<and> xyz_values (\<lambda>n. 0) r = [2, 0, 0])"
  using point_vector_dispatch
    [of "SX_column [SXConst 1, SXConst 2, SXConst 3, SXConst 1]" None
        "SX_column [SXConst 1, SXConst 2, SXConst 3, SXConst 1]" None
        "SX_column [SXConst 1, SXConst 0, SXConst 0, SXConst 0]" None None
        "PyNum 2" Times "\<lambda>n. 0"]
  by (simp add: is_vec4_def SX_column_def scalar_value_def py_value_def xyz_values_def
      entry_values_def)

section \<open>Symbol interning and equality (C5)\<close>

lemma fresh_registry_ok: "registry_ok fresh_interpreter"
  by (simp add: registry_ok_def fresh_interpreter_def)

lemma Symbol_new_ok:
  assumes "registry_ok st" "Symbol_new n st = (a, st')"
  shows "registry_ok st' \<and> registry st' n = Some a \<and> registry st \<subseteq>\<^sub>m registry st'"
proof (cases "registry st n")
  case None
  with assms(2) have a: "a = \<lparr>oid = next_oid st, name = n, s = SXSym n\<rparr>"
    and st': "st' = st\<lparr>registry := (registry st)(n \<mapsto> a), next_oid := Suc (next_oid st)\<rparr>"
    by (auto simp add: Symbol_new_def Let_def)
  have "registry_ok st'"
    unfolding registry_ok_def st'
    using assms(1) None a
    by (auto simp add: registry_ok_def less_Suc_eq dest: spec) (metis less_irrefl)+
  moreover have "registry st \<subseteq>\<^sub>m registry st'"
    using None by (auto simp add: st' map_le_def)
  ultimately show ?thesis by (simp add: st')
next
  case (Some b)
  with assms show ?thesis by (auto simp add: Symbol_new_def)
qed

lemma Symbols_ok:
  assumes "registry_ok st" "Symbols ns st = (rs, st')"
  shows "registry_ok st' \<and> length rs = length ns \<and> registry st \<subseteq>\<^sub>m registry st'
         \<and> (\<forall>i < length ns. registry st' (ns ! i) = Some (rs ! i))"
  using assms
proof (induction ns arbitrary: st rs st')
  case Nil
  then show ?case by simp
next
  case (Cons n ns)
  obtain a st1 where a: "Symbol_new n st = (a, st1)" by (cases "Symbol_new n st")
  obtain as st2 where as: "Symbols ns st1 = (as, st2)" by (cases "Symbols ns st1")
  from Cons.prems(2) a as have rs: "rs = a # as" and st': "st' = st2" by simp_all
  from Symbol_new_ok[OF Cons.prems(1) a]
  have ok1: "registry_ok st1" and reg: "registry st1 n = Some a"
    and le1: "registry st \<subseteq>\<^sub>m registry st1" by simp_all
  from Cons.IH[OF ok1 as]
  have ok2: "registry_ok st2" and len: "length as = length ns"
    and le2: "registry st1 \<subseteq>\<^sub>m registry st2"
    and all: "\<forall>i < length ns. registry st2 (ns ! i) = Some (as ! i)" by simp_all
  from reg le2 have "registry st2 n = Some a"
    by (metis domI map_le_def)
  with all have "\<forall>i < length (n # ns). registry st2 ((n # ns) ! i) = Some ((a # as) ! i)"
    by (auto simp add: nth_Cons split: nat.splits)
  moreover from le1 le2 have "registry st \<subseteq>\<^sub>m registry st2" by (rule map_le_trans)
  ultimately show ?case using ok2 len rs st' by simp
qed

text \<open>
  C5, as amended. In a run of constructor calls from the empty registry, the instances
  returned for two calls are the very same object exactly when the two names are equal.
  \<^verbatim>\<open>==\<close> on them holds exactly when the hashes of the two names are equal; so it holds
  when the names are equal, and symbols that compare equal have equal hashes.
\<close>

theorem symbol_interning:
  assumes "i < length ns" and "j < length ns"
  shows "(is_same (fst (Symbols ns fresh_interpreter) ! i) (fst (Symbols ns fresh_interpreter) ! j)
            \<longleftrightarrow> ns ! i = ns ! j)
    \<and> (Symbol_eq str_hash (fst (Symbols ns fresh_interpreter) ! i)
            (fst (Symbols ns fresh_interpreter) ! j)
            \<longleftrightarrow> str_hash (ns ! i) = str_hash (ns ! j))
    \<and> (ns ! i = ns ! j \<longrightarrow>
          Symbol_eq str_hash (fst (Symbols ns fresh_interpreter) ! i)
            (fst (Symbols ns fresh_interpreter) ! j))
    \<and> (Symbol_eq str_hash (fst (Symbols ns fresh_interpreter) ! i)
            (fst (Symbols ns fresh_interpreter) ! j) \<longrightarrow>
          Symbol_hash str_hash (fst (Symbols ns fresh_interpreter) ! i)
            = Symbol_hash str_hash (fst (Symbols ns fresh_interpreter) ! j))"
proof -
  obtain rs st' where run: "Symbols ns fresh_interpreter = (rs, st')"
    by (cases "Symbols ns fresh_interpreter")
  from Symbols_ok[OF fresh_registry_ok run]
  have ok: "registry_ok st'" and all: "\<forall>i < length ns. registry st' (ns ! i) = Some (rs ! i)"
    by simp_all
  from all assms have ri: "registry st' (ns ! i) = Some (rs ! i)"
    and rj: "registry st' (ns ! j) = Some (rs ! j)" by simp_all
  from ok ri rj have ni: "name (rs ! i) = ns ! i" and nj: "name (rs ! j) = ns ! j"
    by (auto simp add: registry_ok_def)
  from ok ri rj have "oid (rs ! i) = oid (rs ! j) \<Longrightarrow> ns ! i = ns ! j"
    unfolding registry_ok_def by blast
  moreover from ri rj have "ns ! i = ns ! j \<Longrightarrow> rs ! i = rs ! j" by simp
  ultimately show ?thesis
    using ni nj by (auto simp add: run is_same_def Symbol_eq_def Symbol_hash_def)
qed

theorem symbol_interning_witness:
  "(0::nat) < length [''a'', ''b'', ''a''] \<and> (2::nat) < length [''a'', ''b'', ''a'']
   \<and> is_same (fst (Symbols [''a'', ''b'', ''a''] fresh_interpreter) ! 0)
        (fst (Symbols [''a'', ''b'', ''a''] fresh_interpreter) ! 2)
   \<and> Symbol_eq (\<lambda>n. 0) (fst (Symbols [''a'', ''b'', ''a''] fresh_interpreter) ! 0)
        (fst (Symbols [''a'', ''b'', ''a''] fresh_interpreter) ! 2)"
  using symbol_interning [of 0 "[''a'', ''b'', ''a'']" 2 "\<lambda>n. 0"]
  by simp

lemma str_hash_collision: "\<exists>n1 n2. n1 \<noteq> n2 \<and> (h :: string \<Rightarrow> 64 word) n1 = h n2"
proof (rule ccontr)
  assume "\<not> ?thesis"
  then have "inj h" by (auto simp add: inj_def)
  moreover have "finite (range h)" by simp
  ultimately have "finite (UNIV :: string set)" by (rule finite_imageD[rotated])
  then show False using infinite_UNIV_listI by blast
qed

text \<open>
  C5 as stated fails in one direction: \<^verbatim>\<open>Symbol(n1) == Symbol(n2)\<close> does not imply
  \<open>n1 = n2\<close>. There are infinitely many names and \<open>2\<^sup>6\<^sup>4\<close> hash values, so whatever the hash
  function is, two different names have the same hash; their symbols are two different
  objects that compare equal.
\<close>

theorem symbol_equality_is_not_name_equality:
  "\<forall>str_hash :: string \<Rightarrow> 64 word. \<exists>n1 n2. n1 \<noteq> n2
      \<and> Symbol_eq str_hash (fst (Symbols [n1, n2] fresh_interpreter) ! 0)
           (fst (Symbols [n1, n2] fresh_interpreter) ! 1)
      \<and> \<not> is_same (fst (Symbols [n1, n2] fresh_interpreter) ! 0)
           (fst (Symbols [n1, n2] fresh_interpreter) ! 1)"
proof
  fix str_hash :: "string \<Rightarrow> 64 word"
  from str_hash_collision obtain n1 n2 where "n1 \<noteq> n2" "str_hash n1 = str_hash n2" by blast
  then have "n1 \<noteq> n2
      \<and> Symbol_eq str_hash (fst (Symbols [n1, n2] fresh_interpreter) ! 0)
           (fst (Symbols [n1, n2] fresh_interpreter) ! 1)
      \<and> \<not> is_same (fst (Symbols [n1, n2] fresh_interpreter) ! 0)
           (fst (Symbols [n1, n2] fresh_interpreter) ! 1)"
    by (simp add: Symbol_new_def fresh_interpreter_def Let_def Symbol_eq_def Symbol_hash_def
        is_same_def)
  then show "\<exists>n1 n2. n1 \<noteq> n2
      \<and> Symbol_eq str_hash (fst (Symbols [n1, n2] fresh_interpreter) ! 0)
           (fst (Symbols [n1, n2] fresh_interpreter) ! 1)
      \<and> \<not> is_same (fst (Symbols [n1, n2] fresh_interpreter) ! 0)
           (fst (Symbols [n1, n2] fresh_interpreter) ! 1)" by blast
qed

section \<open>Quaternion round trip (C2)\<close>

text \<open>
  The matrix that \<^verbatim>\<open>from_quaternion\<close> returns and the quaternion that \<^verbatim>\<open>from_rotation_matrix\<close>
  returns on a \<open>4 \<times> 4\<close> matrix, in closed form; then the values in each of the four
  branches of the extraction.
\<close>

lemma from_quaternion_matrix:
  "RotationMatrix_from_quaternion (SX_column [x, y, z, w]) rf
     = Inr (PyRotationMatrix \<lparr>size1 = 4, size2 = 4, nz = rotation_entries x y z w\<rparr> rf None)"
  by (simp add: RotationMatrix_from_quaternion_def quaternion_to_rotation_matrix_def
      quaternion_to_rotation_matrix_rows_def Expression_init_def RotationMatrix_sanity_check_def
      rotation_entries_def numeral_eq_Suc engine_defs py_defs Let_def)


lemma replicate4: "replicate 4 a = [a, a, a, a]"
  by (simp add: numeral_eq_Suc)

lemma from_rotation_matrix_4x4:
  assumes "length es = 16"
  shows "Quaternion_from_rotation_matrix (PyRotationMatrix \<lparr>size1 = 4, size2 = 4, nz = es\<rparr> rf cf)
     = Inr (PyQuaternion
         (SX_column
            (map (\<lambda>q. sx_mul q (snd (from_rotation_matrix_entries (entry4 es) (trace4 (entry4 es)))))
               [fst (from_rotation_matrix_entries (entry4 es) (trace4 (entry4 es))) ! 0,
                fst (from_rotation_matrix_entries (entry4 es) (trace4 (entry4 es))) ! 1,
                fst (from_rotation_matrix_entries (entry4 es) (trace4 (entry4 es))) ! 2,
                fst (from_rotation_matrix_entries (entry4 es) (trace4 (entry4 es))) ! 3])) rf)"
proof -
  have e: "(\<lambda>i j. es ! (i + 4 * j)) = entry4 es" by (simp add: entry4_def fun_eq_iff)
  have t: "trace \<lparr>size1 = 4, size2 = 4, nz = es\<rparr> = Inr (trace4 (entry4 es))"
    using assms by (simp add: trace_def trace4_def entry4_def SX_elem2_def numeral_eq_Suc)
  show ?thesis
    using assms
    by (simp add: Quaternion_from_rotation_matrix_def t e Expression_init_def SX_elem2_def
        Expression_mul_def Expression_binary_def Quaternion_def sx_mul_def
        split_def replicate4 engine_defs py_defs Let_def)
qed

lemma evalf_if_greater_zero [simp]:
  "evalf env (sx_if_greater_zero c a b) = (if 0 < evalf env c then evalf env a else evalf env b)"
  by (simp add: sx_if_greater_zero_def Let_def)

lemma evalf_arith [simp]:
  "evalf env (sx_add a b) = evalf env a + evalf env b"
  "evalf env (sx_sub a b) = evalf env a - evalf env b"
  "evalf env (sx_mul a b) = evalf env a * evalf env b"
  "evalf env (sx_div a b) = evalf env a / evalf env b"
  "evalf env (sx_sqrt a) = sqrt (evalf env a)"
  by (simp_all add: sx_add_def sx_sub_def sx_mul_def sx_div_def sx_sqrt_def)

lemma branch_trace_positive:
  assumes "0 < evalf env t0 - evalf env (r 3 3)"
  shows "map (evalf env) (fst (from_rotation_matrix_entries r t0))
           = [evalf env (r 2 1) - evalf env (r 1 2), evalf env (r 0 2) - evalf env (r 2 0),
              evalf env (r 1 0) - evalf env (r 0 1), evalf env t0]
       \<and> evalf env (snd (from_rotation_matrix_entries r t0))
           = (1 / 2) / sqrt (evalf env t0 * evalf env (r 3 3))"
  using assms by (simp add: from_rotation_matrix_entries_def Let_def)

lemma branch_z_largest:
  assumes "\<not> 0 < evalf env t0 - evalf env (r 3 3)"
      and "0 < evalf env (r 2 2)
               - (if 0 < evalf env (r 1 1) - evalf env (r 0 0) then evalf env (r 1 1)
                  else evalf env (r 0 0))"
  shows "map (evalf env) (fst (from_rotation_matrix_entries r t0))
           = [evalf env (r 2 0) + evalf env (r 0 2), evalf env (r 1 2) + evalf env (r 2 1),
              evalf env (r 2 2) - (evalf env (r 0 0) + evalf env (r 1 1)) + evalf env (r 3 3),
              evalf env (r 1 0) - evalf env (r 0 1)]
       \<and> evalf env (snd (from_rotation_matrix_entries r t0))
           = (1 / 2) / sqrt ((evalf env (r 2 2) - (evalf env (r 0 0) + evalf env (r 1 1))
                               + evalf env (r 3 3)) * evalf env (r 3 3))"
  using assms
  by (cases "0 < evalf env (r 1 1) - evalf env (r 0 0)")
    (simp_all add: from_rotation_matrix_entries_def Let_def)

lemma branch_y_largest:
  assumes "\<not> 0 < evalf env t0 - evalf env (r 3 3)"
      and "0 < evalf env (r 1 1) - evalf env (r 0 0)"
      and "\<not> 0 < evalf env (r 2 2) - evalf env (r 1 1)"
  shows "map (evalf env) (fst (from_rotation_matrix_entries r t0))
           = [evalf env (r 0 1) + evalf env (r 1 0),
              evalf env (r 1 1) - (evalf env (r 2 2) + evalf env (r 0 0)) + evalf env (r 3 3),
              evalf env (r 1 2) + evalf env (r 2 1),
              evalf env (r 0 2) - evalf env (r 2 0)]
       \<and> evalf env (snd (from_rotation_matrix_entries r t0))
           = (1 / 2) / sqrt ((evalf env (r 1 1) - (evalf env (r 2 2) + evalf env (r 0 0))
                               + evalf env (r 3 3)) * evalf env (r 3 3))"
  using assms by (simp add: from_rotation_matrix_entries_def Let_def)

lemma branch_x_largest:
  assumes "\<not> 0 < evalf env t0 - evalf env (r 3 3)"
      and "\<not> 0 < evalf env (r 1 1) - evalf env (r 0 0)"
      and "\<not> 0 < evalf env (r 2 2) - evalf env (r 0 0)"
  shows "map (evalf env) (fst (from_rotation_matrix_entries r t0))
           = [evalf env (r 0 0) - (evalf env (r 1 1) + evalf env (r 2 2)) + evalf env (r 3 3),
              evalf env (r 0 1) + evalf env (r 1 0),
              evalf env (r 2 0) + evalf env (r 0 2),
              evalf env (r 2 1) - evalf env (r 1 2)]
       \<and> evalf env (snd (from_rotation_matrix_entries r t0))
           = (1 / 2) / sqrt ((evalf env (r 0 0) - (evalf env (r 1 1) + evalf env (r 2 2))
                               + evalf env (r 3 3)) * evalf env (r 3 3))"
  using assms by (simp add: from_rotation_matrix_entries_def Let_def)


lemma map4:
  "map f qs = [a, b, c, d] \<Longrightarrow> f (qs ! 0) = a \<and> f (qs ! 1) = b \<and> f (qs ! 2) = c \<and> f (qs ! 3) = d"
  by (auto simp add: map_eq_Cons_conv)

lemma scaled_component:
  fixes a b :: real
  assumes "a \<noteq> 0"
  shows "(4 * a * b) * ((1 / 2) / sqrt (4 * (a * a))) = (if 0 < a then b else - b)"
proof -
  have "sqrt (4 * (a * a)) = 2 * \<bar>a\<bar>"
    by (simp add: real_sqrt_mult)
  then show ?thesis using assms by (simp add: field_simps abs_if)
qed

lemma rotation_entry_values:
  fixes env x y z w
  defines "X \<equiv> evalf env x" and "Y \<equiv> evalf env y" and "Z \<equiv> evalf env z" and "W \<equiv> evalf env w"
  defines "r \<equiv> entry4 (rotation_entries x y z w)"
  shows "evalf env (r 0 0) = W * W + X * X - Y * Y - Z * Z"
    and "evalf env (r 1 1) = W * W - X * X + Y * Y - Z * Z"
    and "evalf env (r 2 2) = W * W - X * X - Y * Y + Z * Z"
    and "evalf env (r 3 3) = 1"
    and "evalf env (r 0 1) = 2 * X * Y - 2 * W * Z"
    and "evalf env (r 1 0) = 2 * X * Y + 2 * W * Z"
    and "evalf env (r 0 2) = 2 * X * Z + 2 * W * Y"
    and "evalf env (r 2 0) = 2 * X * Z - 2 * W * Y"
    and "evalf env (r 1 2) = 2 * Y * Z - 2 * W * X"
    and "evalf env (r 2 1) = 2 * Y * Z + 2 * W * X"
    and "evalf env (trace4 r) = evalf env (r 0 0) + evalf env (r 1 1) + evalf env (r 2 2) + 1"
  by (simp_all add: r_def X_def Y_def Z_def W_def entry4_def trace4_def rotation_entries_def Let_def)


lemma roundtrip_values:
  fixes env x y z w
  defines "X \<equiv> evalf env x" and "Y \<equiv> evalf env y" and "Z \<equiv> evalf env z" and "W \<equiv> evalf env w"
  defines "E \<equiv> from_rotation_matrix_entries (entry4 (rotation_entries x y z w))
                 (trace4 (entry4 (rotation_entries x y z w)))"
  assumes unit: "X\<^sup>2 + Y\<^sup>2 + Z\<^sup>2 + W\<^sup>2 = 1"
  shows "map (\<lambda>q. evalf env q * evalf env (snd E)) [fst E ! 0, fst E ! 1, fst E ! 2, fst E ! 3]
           = [X, Y, Z, W]
       \<or> map (\<lambda>q. evalf env q * evalf env (snd E)) [fst E ! 0, fst E ! 1, fst E ! 2, fst E ! 3]
           = [- X, - Y, - Z, - W]"
proof -
  define r where "r = entry4 (rotation_entries x y z w)"
  define t0 where "t0 = trace4 r"
  have E: "E = from_rotation_matrix_entries r t0" by (simp add: E_def r_def t0_def)
  note R = rotation_entry_values[of env x y z w, folded r_def X_def Y_def Z_def W_def]
  have u: "X * X + Y * Y + Z * Z + W * W = 1" using unit by (simp add: power2_eq_square)
  have T0: "evalf env t0 = 4 * (W * W)" unfolding t0_def using R u by (simp add: algebra_simps)
  have R33: "evalf env (r 3 3) = 1" by (rule R)
  let ?res = "\<lambda>v. map (\<lambda>q. evalf env q * evalf env (snd E)) [fst E ! 0, fst E ! 1, fst E ! 2, fst E ! 3]
           = [v * X, v * Y, v * Z, v * W]"
  have fin: "?thesis" if "?res (if 0 < a then 1 else - 1)" for a :: real
    using that by (cases "0 < a") simp_all
  consider (A) "0 < evalf env t0 - evalf env (r 3 3)"
    | (B) "\<not> 0 < evalf env t0 - evalf env (r 3 3)"
          "0 < evalf env (r 2 2)
               - (if 0 < evalf env (r 1 1) - evalf env (r 0 0) then evalf env (r 1 1)
                  else evalf env (r 0 0))"
    | (C) "\<not> 0 < evalf env t0 - evalf env (r 3 3)"
          "0 < evalf env (r 1 1) - evalf env (r 0 0)"
          "\<not> 0 < evalf env (r 2 2) - evalf env (r 1 1)"
    | (D) "\<not> 0 < evalf env t0 - evalf env (r 3 3)"
          "\<not> 0 < evalf env (r 1 1) - evalf env (r 0 0)"
          "\<not> 0 < evalf env (r 2 2) - evalf env (r 0 0)"
    by (cases "0 < evalf env (r 1 1) - evalf env (r 0 0)") auto
  then show ?thesis
  proof cases
    case A
    from A T0 R33 have W0: "W \<noteq> 0" by auto
    from branch_trace_positive[of env t0 r, OF A] have
      q: "map (evalf env) (fst E)
           = [evalf env (r 2 1) - evalf env (r 1 2), evalf env (r 0 2) - evalf env (r 2 0),
              evalf env (r 1 0) - evalf env (r 0 1), evalf env t0]"
      and k: "evalf env (snd E) = (1 / 2) / sqrt (evalf env t0 * evalf env (r 3 3))"
      by (simp_all add: E)
    have K: "evalf env (snd E) = (1 / 2) / sqrt (4 * (W * W))" using k T0 R33 by simp
    have q0: "evalf env (fst E ! 0) = 4 * W * X" and q1: "evalf env (fst E ! 1) = 4 * W * Y"
      and q2: "evalf env (fst E ! 2) = 4 * W * Z" and q3: "evalf env (fst E ! 3) = 4 * W * W"
      using map4[OF q] R T0 by (simp_all add: algebra_simps)
    have "?res (if 0 < W then 1 else - 1)"
      unfolding q0 q1 q2 q3 K list.map
      using scaled_component[OF W0, of X] scaled_component[OF W0, of Y]
        scaled_component[OF W0, of Z] scaled_component[OF W0, of W]
      by (simp del: real_sqrt_mult_self real_sqrt_four)
    then show ?thesis by (rule fin)
  next
    case B
    have "X * X < Z * Z \<or> Y * Y < Z * Z"
      using B(2) R by (auto split: if_splits)
    then have pos: "0 < Z * Z"
      using zero_le_square[of X] zero_le_square[of Y] by linarith
    then have V0: "Z \<noteq> 0" by auto
    from branch_z_largest[of env t0 r, OF B(1) B(2)] have
      q: "map (evalf env) (fst E) = [evalf env (r 2 0) + evalf env (r 0 2), evalf env (r 1 2) + evalf env (r 2 1),
              evalf env (r 2 2) - (evalf env (r 0 0) + evalf env (r 1 1)) + evalf env (r 3 3),
              evalf env (r 1 0) - evalf env (r 0 1)]"
      and k: "evalf env (snd E) = (1 / 2) / sqrt ((evalf env (r 2 2) - (evalf env (r 0 0) + evalf env (r 1 1)) + evalf env (r 3 3)) * evalf env (r 3 3))"
      by (simp_all add: E)
    have T: "evalf env (r 2 2) - (evalf env (r 0 0) + evalf env (r 1 1)) + evalf env (r 3 3) = 4 * (Z * Z)" using R u by (simp add: algebra_simps)
    have K: "evalf env (snd E) = (1 / 2) / sqrt (4 * (Z * Z))"
      unfolding k T unfolding R33 by simp
    have q0: "evalf env (fst E ! 0) = 4 * Z * X" and q1: "evalf env (fst E ! 1) = 4 * Z * Y"
      and q2: "evalf env (fst E ! 2) = 4 * Z * Z" and q3: "evalf env (fst E ! 3) = 4 * Z * W"
      using map4[OF q] R u by (simp_all add: algebra_simps)
    have "?res (if 0 < Z then 1 else - 1)"
      unfolding q0 q1 q2 q3 K list.map
      using scaled_component[OF V0, of X] scaled_component[OF V0, of Y]
        scaled_component[OF V0, of Z] scaled_component[OF V0, of W]
      by (simp del: real_sqrt_mult_self real_sqrt_four)
    then show ?thesis by (rule fin)
  next
    case C
    have "X * X < Y * Y"
      using C(2) R by auto
    then have pos: "0 < Y * Y"
      using zero_le_square[of X] by linarith
    then have V0: "Y \<noteq> 0" by auto
    from branch_y_largest[of env t0 r, OF C(1) C(2) C(3)] have
      q: "map (evalf env) (fst E) = [evalf env (r 0 1) + evalf env (r 1 0),
              evalf env (r 1 1) - (evalf env (r 2 2) + evalf env (r 0 0)) + evalf env (r 3 3),
              evalf env (r 1 2) + evalf env (r 2 1),
              evalf env (r 0 2) - evalf env (r 2 0)]"
      and k: "evalf env (snd E) = (1 / 2) / sqrt ((evalf env (r 1 1) - (evalf env (r 2 2) + evalf env (r 0 0)) + evalf env (r 3 3)) * evalf env (r 3 3))"
      by (simp_all add: E)
    have T: "evalf env (r 1 1) - (evalf env (r 2 2) + evalf env (r 0 0)) + evalf env (r 3 3) = 4 * (Y * Y)" using R u by (simp add: algebra_simps)
    have K: "evalf env (snd E) = (1 / 2) / sqrt (4 * (Y * Y))"
      unfolding k T unfolding R33 by simp
    have q0: "evalf env (fst E ! 0) = 4 * Y * X" and q1: "evalf env (fst E ! 1) = 4 * Y * Y"
      and q2: "evalf env (fst E ! 2) = 4 * Y * Z" and q3: "evalf env (fst E ! 3) = 4 * Y * W"
      using map4[OF q] R u by (simp_all add: algebra_simps)
    have "?res (if 0 < Y then 1 else - 1)"
      unfolding q0 q1 q2 q3 K list.map
      using scaled_component[OF V0, of X] scaled_component[OF V0, of Y]
        scaled_component[OF V0, of Z] scaled_component[OF V0, of W]
      by (simp del: real_sqrt_mult_self real_sqrt_four)
    then show ?thesis by (rule fin)
  next
    case D
    have "4 * (W * W) \<le> 1" "Y * Y \<le> X * X" "Z * Z \<le> X * X"
      using D T0 R by auto
    then have pos: "0 < X * X"
      using u by linarith
    then have V0: "X \<noteq> 0" by auto
    from branch_x_largest[of env t0 r, OF D(1) D(2) D(3)] have
      q: "map (evalf env) (fst E) = [evalf env (r 0 0) - (evalf env (r 1 1) + evalf env (r 2 2)) + evalf env (r 3 3),
              evalf env (r 0 1) + evalf env (r 1 0),
              evalf env (r 2 0) + evalf env (r 0 2),
              evalf env (r 2 1) - evalf env (r 1 2)]"
      and k: "evalf env (snd E) = (1 / 2) / sqrt ((evalf env (r 0 0) - (evalf env (r 1 1) + evalf env (r 2 2)) + evalf env (r 3 3)) * evalf env (r 3 3))"
      by (simp_all add: E)
    have T: "evalf env (r 0 0) - (evalf env (r 1 1) + evalf env (r 2 2)) + evalf env (r 3 3) = 4 * (X * X)" using R u by (simp add: algebra_simps)
    have K: "evalf env (snd E) = (1 / 2) / sqrt (4 * (X * X))"
      unfolding k T unfolding R33 by simp
    have q0: "evalf env (fst E ! 0) = 4 * X * X" and q1: "evalf env (fst E ! 1) = 4 * X * Y"
      and q2: "evalf env (fst E ! 2) = 4 * X * Z" and q3: "evalf env (fst E ! 3) = 4 * X * W"
      using map4[OF q] R u by (simp_all add: algebra_simps)
    have "?res (if 0 < X then 1 else - 1)"
      unfolding q0 q1 q2 q3 K list.map
      using scaled_component[OF V0, of X] scaled_component[OF V0, of Y]
        scaled_component[OF V0, of Z] scaled_component[OF V0, of W]
      by (simp del: real_sqrt_mult_self real_sqrt_four)
    then show ?thesis by (rule fin)
  qed
qed


text \<open>
  C2. Let \<open>x\<close>, \<open>y\<close>, \<open>z\<close>, \<open>w\<close> be the components of a quaternion whose values have unit norm.
  Then \<^verbatim>\<open>RotationMatrix.from_quaternion(q)\<close> returns a rotation matrix, \<^verbatim>\<open>to_quaternion()\<close> on
  it returns a \<^verbatim>\<open>Quaternion\<close>, and the values of its four entries are those of \<open>q\<close> or those of
  \<open>- q\<close>.
\<close>

theorem quaternion_round_trip_up_to_sign:
  assumes "(evalf env x)\<^sup>2 + (evalf env y)\<^sup>2 + (evalf env z)\<^sup>2 + (evalf env w)\<^sup>2 = 1"
  shows "\<exists>R q'. RotationMatrix_from_quaternion (SX_column [x, y, z, w]) rf = Inr R
            \<and> RotationMatrix_to_quaternion R = Inr q'
            \<and> class_name q' = ''Quaternion''
            \<and> (entry_values env q' = [evalf env x, evalf env y, evalf env z, evalf env w]
               \<or> entry_values env q'
                   = [- evalf env x, - evalf env y, - evalf env z, - evalf env w])"
proof -
  let ?es = "rotation_entries x y z w"
  let ?R = "PyRotationMatrix \<lparr>size1 = 4, size2 = 4, nz = ?es\<rparr> rf None"
  let ?E = "from_rotation_matrix_entries (entry4 ?es) (trace4 (entry4 ?es))"
  let ?q = "PyQuaternion
         (SX_column (map (\<lambda>q. sx_mul q (snd ?E))
            [fst ?E ! 0, fst ?E ! 1, fst ?E ! 2, fst ?E ! 3])) rf"
  have len: "length ?es = 16" by (simp add: rotation_entries_def Let_def)
  have a: "RotationMatrix_from_quaternion (SX_column [x, y, z, w]) rf = Inr ?R"
    by (rule from_quaternion_matrix)
  have b: "RotationMatrix_to_quaternion ?R = Inr ?q"
    unfolding RotationMatrix_to_quaternion_def by (rule from_rotation_matrix_4x4[OF len])
  have c: "class_name ?q = ''Quaternion''" by simp
  have v: "entry_values env ?q
      = map (\<lambda>q. evalf env q * evalf env (snd ?E)) [fst ?E ! 0, fst ?E ! 1, fst ?E ! 2, fst ?E ! 3]"
    by (simp add: entry_values_def SX_column_def)
  have d: "entry_values env ?q = [evalf env x, evalf env y, evalf env z, evalf env w]
      \<or> entry_values env ?q = [- evalf env x, - evalf env y, - evalf env z, - evalf env w]"
    unfolding v by (rule roundtrip_values[OF assms])
  from a b c d show ?thesis by blast
qed

theorem quaternion_round_trip_up_to_sign_witness:
  "(evalf (\<lambda>n. 0) (SXConst 0))\<^sup>2 + (evalf (\<lambda>n. 0) (SXConst 0))\<^sup>2
     + (evalf (\<lambda>n. 0) (SXConst 0))\<^sup>2 + (evalf (\<lambda>n. 0) (SXConst 1))\<^sup>2 = 1
   \<and> (\<exists>R q'. RotationMatrix_from_quaternion
               (SX_column [SXConst 0, SXConst 0, SXConst 0, SXConst 1]) None = Inr R
            \<and> RotationMatrix_to_quaternion R = Inr q'
            \<and> class_name q' = ''Quaternion''
            \<and> (entry_values (\<lambda>n. 0) q' = [0, 0, 0, 1]
               \<or> entry_values (\<lambda>n. 0) q' = [0, 0, 0, - 1]))"
  using quaternion_round_trip_up_to_sign
    [of "\<lambda>n. 0" "SXConst 0" "SXConst 0" "SXConst 0" "SXConst 1" None]
  by simp

section \<open>Compilation equivalence (C1)\<close>

text \<open>
  What holds of every densely compiled function. \<^verbatim>\<open>fast_call\<close> with one array per parameter
  group, each long enough for its group, returns the values of the entries under the
  assignment that the arrays describe. \<^verbatim>\<open>__call__\<close> on a function with a single parameter
  group returns their values under the keyword values. A function with no parameter group
  returns on every call the array that \<^verbatim>\<open>__init__\<close> computed, the values of the entries under
  any assignment.
\<close>

lemma index_of_bound: "index_of g n = Some k \<Longrightarrow> k < length g \<and> g ! k = n"
  by (induction g arbitrary: k) (auto split: if_splits)

lemma find_input_bound:
  "find_input gs n = Some (i, k) \<Longrightarrow> i < length gs \<and> k < length (gs ! i) \<and> gs ! i ! k = n"
proof (induction gs arbitrary: i k)
  case Nil
  then show ?case by simp
next
  case (Cons g gs)
  show ?case
  proof (cases "index_of g n")
    case None
    with Cons.prems obtain i' where f: "find_input gs n = Some (i', k)" and i: "i = Suc i'"
      by auto
    from Cons.IH[OF f] i show ?thesis by simp
  next
    case (Some k')
    with Cons.prems have "i = 0" "k = k'" by auto
    with index_of_bound[OF Some] show ?thesis by simp
  qed
qed

lemma bind_args_buffer:
  assumes "k + length args \<le> length (function_buffer self)"
      and "\<forall>i<length args. length (function_inputs self ! (k + i)) \<le> length (args ! i)"
  shows "bind_args self k args
           = Inr (self\<lparr>function_buffer :=
                take k (function_buffer self) @ map Some args
                  @ drop (k + length args) (function_buffer self)\<rparr>)"
  using assms
proof (induction args arbitrary: self k)
  case Nil
  then show ?case by simp
next
  case (Cons a args)
  let ?self = "self\<lparr>function_buffer := (function_buffer self)[k := Some a]\<rparr>"
  from Cons.prems have k: "k < length (function_buffer self)" by simp
  from Cons.prems(2)[rule_format, of 0] have a: "length (function_inputs self ! k) \<le> length a"
    by simp
  have s: "set_arg self k a = Inr ?self" using k a by (simp add: set_arg_def)
  have len: "Suc k + length args \<le> length (function_buffer ?self)" using Cons.prems by simp
  have inp: "\<forall>i<length args. length (function_inputs ?self ! (Suc k + i)) \<le> length (args ! i)"
    using Cons.prems(2) by (auto dest: spec[of _ "Suc i" for i])
  have "take (Suc k) ((function_buffer self)[k := Some a]) = take k (function_buffer self) @ [Some a]"
    using k by (simp add: take_Suc_conv_app_nth)
  then show ?case
    using Cons.IH[OF len inp] s by simp
qed

lemma fast_call_substitution:
  assumes "CompiledFunction_init expression params False = Inr f"
      and "symbol_parameters f \<noteq> []"
      and "length args = length (symbol_parameters f)"
      and "\<forall>i<length args. length (symbol_parameters f ! i) \<le> length (args ! i)"
  shows "\<exists>r f'. fast_call f args = Inr (r, f')
           \<and> dense_values r
               = map (evalf (positional_env (symbol_parameters f) args)) (nz expression)"
proof -
  let ?g = "symbol_parameters f"
  from assms(1,2) have f: "function_inputs f = ?g" "function_output f = nz expression"
      "function_buffer f = replicate (length ?g) None" "replaced_call f = None"
      "out f = NDArray (replicate (length (nz expression)) 0) (size1 expression, size2 expression)"
    by (auto simp add: CompiledFunction_init_def function_evaluator_def Let_def split: if_splits)
  have b: "bind_args f 0 args = Inr (f\<lparr>function_buffer := map Some args\<rparr>)"
    using bind_args_buffer[of 0 args f] assms(3,4) f by simp
  have env: "buffer_env ?g (map Some args) = positional_env ?g args"
  proof
    fix n
    show "buffer_env ?g (map Some args) n = positional_env ?g args n"
    proof (cases "find_input ?g n")
      case None
      then show ?thesis by (simp add: buffer_env_def positional_env_def)
    next
      case (Some p)
      obtain i k where p: "p = (i, k)" by (cases p)
      from find_input_bound[of ?g n i k] Some p have "i < length args" using assms(3) by simp
      then show ?thesis using Some p by (simp add: buffer_env_def positional_env_def)
    qed
  qed
  show ?thesis
    by (simp add: fast_call_def f b function_evaluator_def env dense_values_def)
qed


lemma evalf_cong_env:
  "(\<And>n. n \<in> set (symvar e) \<Longrightarrow> env n = env' n) \<Longrightarrow> evalf env e = evalf env' e"
  by (induction e) simp_all

lemma index_of_member: "n \<in> set g \<Longrightarrow> \<exists>k. index_of g n = Some k"
  by (induction g) auto

lemma collect_kwargs_values:
  "set ps \<subseteq> dom kwargs \<Longrightarrow> collect_kwargs kwargs ps = Inr (map (\<lambda>p. the (kwargs p)) ps)"
  by (induction ps) auto

lemma init_covers_free_symbols:
  assumes "CompiledFunction_init expression params False = Inr f"
  shows "set (free_symbols expression) \<subseteq> set (concat (symbol_parameters f))"
proof -
  define groups where "groups = (case params of
            NoParameters \<Rightarrow>
              (if free_symbols expression \<noteq> [] then [free_symbols expression] else [])
          | FlatParameters ps \<Rightarrow> (if ps \<noteq> [] then [ps] else [])
          | GroupedParameters gs \<Rightarrow> gs)"
  have ok: "set (free_symbols expression) \<subseteq> set (concat groups)"
    using assms unfolding CompiledFunction_init_def Let_def groups_def[symmetric]
    by (simp split: if_splits)
  have "symbol_parameters f = groups"
    using assms unfolding CompiledFunction_init_def Let_def groups_def[symmetric]
    by (auto simp add: function_evaluator_def split: if_splits)
  with ok show ?thesis by simp
qed

lemma init_covers_symbols:
  assumes "CompiledFunction_init expression params False = Inr f" and "e \<in> set (nz expression)"
  shows "set (symvar e) \<subseteq> set (concat (symbol_parameters f))"
proof -
  have "set (symvar e) \<subseteq> set (free_symbols expression)"
    using assms(2) by (auto simp add: free_symbols_def)
  with init_covers_free_symbols[OF assms(1)] show ?thesis by blast
qed

lemma call_one_group_substitution:
  assumes init: "CompiledFunction_init expression params False = Inr f"
      and one: "symbol_parameters f = [g]"
      and given: "set g \<subseteq> dom kwargs"
  shows "\<exists>r f'. CompiledFunction_call f kwargs = Inr (r, f')
           \<and> dense_values r = map (evalf (kwargs_env kwargs)) (nz expression)"
proof -
  let ?vals = "map (\<lambda>p. the (kwargs p)) g"
  have c: "CompiledFunction_call f kwargs = fast_call f [?vals]"
    by (simp add: CompiledFunction_call_def one collect_kwargs_values[OF given])
  from fast_call_substitution[OF init, of "[?vals]"] one
  obtain r f' where r: "fast_call f [?vals] = Inr (r, f')"
    and v: "dense_values r = map (evalf (positional_env [g] [?vals])) (nz expression)"
    by auto
  have "evalf (positional_env [g] [?vals]) e = evalf (kwargs_env kwargs) e"
    if e: "e \<in> set (nz expression)" for e
  proof (rule evalf_cong_env)
    fix n assume "n \<in> set (symvar e)"
    with init_covers_symbols[OF init e] one have n: "n \<in> set g" by auto
    then obtain k where k: "index_of g n = Some k" using index_of_member by blast
    from index_of_bound[OF k] have kb: "k < length g" "g ! k = n" by simp_all
    from n given obtain v where "kwargs n = Some v" by blast
    then show "positional_env [g] [?vals] n = kwargs_env kwargs n"
      using k kb by (simp add: positional_env_def kwargs_env_def)
  qed
  then have "map (evalf (positional_env [g] [?vals])) (nz expression)
      = map (evalf (kwargs_env kwargs)) (nz expression)"
    by simp
  with c r v show ?thesis by simp
qed

lemma no_parameters_constant:
  assumes init: "CompiledFunction_init expression params False = Inr f"
      and none: "symbol_parameters f = []"
  shows "\<exists>r. (\<forall>args. fast_call f args = Inr (r, f))
           \<and> (\<forall>kwargs. CompiledFunction_call f kwargs = Inr (r, f))
           \<and> (\<forall>env. dense_values r = map (evalf env) (nz expression))"
proof -
  define groups where "groups = (case params of
            NoParameters \<Rightarrow>
              (if free_symbols expression \<noteq> [] then [free_symbols expression] else [])
          | FlatParameters ps \<Rightarrow> (if ps \<noteq> [] then [ps] else [])
          | GroupedParameters gs \<Rightarrow> gs)"
  have "symbol_parameters f = groups"
    using init unfolding CompiledFunction_init_def Let_def groups_def[symmetric]
    by (auto simp add: function_evaluator_def split: if_splits)
  with none have g: "groups = []" by simp
  let ?r = "NDArray (map (evalf (buffer_env [] [])) (nz expression))
              (size1 expression, size2 expression)"
  have r: "replaced_call f = Some ?r"
    using init unfolding CompiledFunction_init_def Let_def groups_def[symmetric]
    unfolding g
    by (simp split: if_splits, hypsubst, simp add: function_evaluator_def)
  have "evalf env e = evalf (buffer_env [] []) e" if e: "e \<in> set (nz expression)" for env e
  proof (rule evalf_cong_env)
    fix n assume "n \<in> set (symvar e)"
    with init_covers_symbols[OF init e] none show "env n = buffer_env [] [] n" by simp
  qed
  then have m: "map (evalf env) (nz expression) = map (evalf (buffer_env [] [])) (nz expression)"
    for env
    by (intro map_cong refl)
  have v: "dense_values ?r = map (evalf env) (nz expression)" for env
    unfolding m[of env] by (simp add: dense_values_def)
  have a: "fast_call f args = Inr (?r, f)" for args
    by (simp add: fast_call_def r)
  have b: "CompiledFunction_call f kwargs = Inr (?r, f)" for kwargs
    by (simp add: CompiledFunction_call_def none a)
  from a b v show ?thesis by blast
qed

text \<open>
  C1. The claim reads a call of a compiled function, by keywords (\<^verbatim>\<open>__call__\<close>) or by position
  (\<^verbatim>\<open>fast_call\<close>), as returning the value of the expression under the given values of its
  parameters. Take the expression \<open>a + c\<close>, compiled densely with the two parameter groups
  \<open>[[a], [c]]\<close>. Under \<open>a = 1\<close>, \<open>c = 3\<close> the expression has the value 4, and \<^verbatim>\<open>fast_call\<close> with one
  array per group returns 4. \<^verbatim>\<open>__call__(a=1, c=3)\<close> returns 1: it hands the single array
  \<open>[1, 3]\<close> to \<^verbatim>\<open>fast_call\<close>, which binds it to the first group and leaves the second group
  unbound.
\<close>

theorem call_with_two_parameter_groups:
  "then_do (Symbol_add (PySymbol ''a'') (PySymbol ''c'')) (\<lambda>e.
     then_do (compile e (GroupedParameters [[''a''], [''c'']]) False) (\<lambda>f.
     then_do (CompiledFunction_call f [''a'' \<mapsto> 1, ''c'' \<mapsto> 3]) (\<lambda>(r, f').
       Inr (dense_values r)))) = Inr [1]
   \<and> then_do (Symbol_add (PySymbol ''a'') (PySymbol ''c'')) (\<lambda>e.
     then_do (compile e (GroupedParameters [[''a''], [''c'']]) False) (\<lambda>f.
     then_do (fast_call f [[1], [3]]) (\<lambda>(r, f').
       Inr (dense_values r)))) = Inr [4]
   \<and> then_do (Symbol_add (PySymbol ''a'') (PySymbol ''c'')) (\<lambda>e.
       Inr (entry_values (kwargs_env [''a'' \<mapsto> 1, ''c'' \<mapsto> 3]) e)) = Inr [4]"
  by (simp add: Symbol_add_def Symbol_binary_def compile_def CompiledFunction_init_def
      CompiledFunction_call_def fast_call_def set_arg_def function_evaluator_def
      buffer_env_def free_symbols_def dense_values_def entry_values_def kwargs_env_def
      engine_defs py_defs Let_def)

end
